theory Spec2Isabelle
  imports Complex_Main "HOL-Library.Word" "HOL-Library.Multiset"
begin

section \<open>FixNet client: estimator, center ranking, submission, API boundary\<close>

text \<open>
  A shallow embedding of the logic of \<^verbatim>\<open>src/App.tsx\<close> and \<^verbatim>\<open>src/api.ts\<close>.
  Conventions:
  \<^item> a JavaScript string is the list of its UTF-16 code units (\<open>length\<close> is
    \<^verbatim>\<open>.length\<close>);
  \<^item> a JavaScript number is a \<open>jsnum\<close>: a finite value, \<^verbatim>\<open>NaN\<close> or an infinity; the
    arithmetic of the estimator and of the distance rounds each result to binary64;
    the sign of a zero is not represented;
  \<^item> React state is a record, an event handler is a function from the state to the
    new state and the list of effects it caused, a backend call is a function from
    the request to \<open>Inl message\<close> (the promise rejects) or \<open>Inr body\<close>.
\<close>

subsection \<open>Strings\<close>

type_synonym jsstring = "16 word list"

text \<open>Writing an ASCII literal as a JavaScript string.\<close>

definition ascii :: "string \<Rightarrow> jsstring" where
  "ascii s = map (\<lambda>c. of_nat (of_char c)) s"

text \<open>
  The code units that \<^verbatim>\<open>String.prototype.trim\<close> and \<^verbatim>\<open>Number\<close> strip: ECMAScript's
  WhiteSpace and LineTerminator.
\<close>

definition isWhiteSpace :: "16 word \<Rightarrow> bool" where
  "isWhiteSpace c \<longleftrightarrow>
     c \<in> {0x9, 0xA, 0xB, 0xC, 0xD, 0x20, 0xA0, 0x1680, 0x2028, 0x2029, 0x202F, 0x205F,
          0x3000, 0xFEFF}
     \<or> (0x2000 \<le> c \<and> c \<le> 0x200A)"

text \<open>\<^verbatim>\<open>s.trim()\<close>\<close>

definition trim :: "jsstring \<Rightarrow> jsstring" where
  "trim s = rev (dropWhile isWhiteSpace (rev (dropWhile isWhiteSpace s)))"

text \<open>The regular expression class \<^verbatim>\<open>\d\<close>: the digits 0 to 9; \<^verbatim>\<open>\D\<close> is its complement.\<close>

definition isDigit :: "16 word \<Rightarrow> bool" where
  "isDigit c \<longleftrightarrow> 0x30 \<le> c \<and> c \<le> 0x39"

subsection \<open>Numbers and \<^verbatim>\<open>Number(...)\<close>\<close>

datatype jsnum = Fin real | NaN | PosInf | NegInf

text \<open>\<^verbatim>\<open>!!n\<close> and \<^verbatim>\<open>Number.isFinite(n)\<close>\<close>

fun truthy_num :: "jsnum \<Rightarrow> bool" where
  "truthy_num (Fin x) = (x \<noteq> 0)"
| "truthy_num NaN = False"
| "truthy_num PosInf = True"
| "truthy_num NegInf = True"

fun Number_isFinite :: "jsnum \<Rightarrow> bool" where
  "Number_isFinite (Fin x) = True"
| "Number_isFinite n = False"

fun negate :: "jsnum \<Rightarrow> jsnum" where
  "negate (Fin x) = Fin (- x)"
| "negate NaN = NaN"
| "negate PosInf = NegInf"
| "negate NegInf = PosInf"

text \<open>
  What remains of rounding a real to binary64 here: a magnitude of at least
  \<open>2\<^sup>1\<^sup>0\<^sup>2\<^sup>4 - 2\<^sup>9\<^sup>7\<^sup>0\<close> becomes an infinity and one of at most \<open>2\<^sup>-\<^sup>1\<^sup>0\<^sup>7\<^sup>5\<close> becomes zero, so
  that finiteness and truthiness of a parsed number are those of JavaScript.
\<close>

definition to_double_range :: "real \<Rightarrow> jsnum" where
  "to_double_range x =
     (if 2 ^ 1024 - 2 ^ 970 \<le> x then PosInf
      else if x \<le> - (2 ^ 1024 - 2 ^ 970) then NegInf
      else if \<bar>x\<bar> \<le> 1 / 2 ^ 1075 then Fin 0
      else Fin x)"

text \<open>ECMAScript's StringToNumber (the grammar StringNumericLiteral).\<close>

definition digit_value :: "16 word \<Rightarrow> nat" where
  "digit_value c =
     (if isDigit c then unat c - 48
      else if 0x61 \<le> c \<and> c \<le> 0x66 then unat c - 87
      else if 0x41 \<le> c \<and> c \<le> 0x46 then unat c - 55
      else 16)"

definition digits_value :: "nat \<Rightarrow> jsstring \<Rightarrow> nat" where
  "digits_value radix ds = foldl (\<lambda>n c. radix * n + digit_value c) 0 ds"

definition ExponentPart :: "jsstring \<Rightarrow> int option" where
  "ExponentPart s =
     (case s of
        [] \<Rightarrow> Some 0
      | c # t \<Rightarrow>
          if c = 0x65 \<or> c = 0x45 then
            (let neg = (case t of [] \<Rightarrow> False | d # u \<Rightarrow> d = 0x2D);
                 ds = (case t of [] \<Rightarrow> [] | d # u \<Rightarrow> if d = 0x2D \<or> d = 0x2B then u else t)
             in if ds \<noteq> [] \<and> list_all isDigit ds
                then Some (if neg then - int (digits_value 10 ds) else int (digits_value 10 ds))
                else None)
          else None)"

definition StrUnsignedDecimalLiteral :: "jsstring \<Rightarrow> jsnum option" where
  "StrUnsignedDecimalLiteral s =
     (if s = ascii ''Infinity'' then Some PosInf
      else
        (let ip = takeWhile isDigit s;
             r1 = dropWhile isDigit s;
             fp = (case r1 of [] \<Rightarrow> [] | c # t \<Rightarrow> if c = 0x2E then takeWhile isDigit t else []);
             r2 = (case r1 of [] \<Rightarrow> [] | c # t \<Rightarrow> if c = 0x2E then dropWhile isDigit t else r1)
         in if ip = [] \<and> fp = [] then None
            else
              (case ExponentPart r2 of
                 None \<Rightarrow> None
               | Some e \<Rightarrow>
                   (let m = real (digits_value 10 ip)
                            + real (digits_value 10 fp) / 10 ^ length fp
                    in Some (to_double_range
                               (if 0 \<le> e then m * 10 ^ nat e else m / 10 ^ nat (- e)))))))"

definition StrDecimalLiteral :: "jsstring \<Rightarrow> jsnum option" where
  "StrDecimalLiteral s =
     (case s of
        [] \<Rightarrow> None
      | c # t \<Rightarrow>
          if c = 0x2B then StrUnsignedDecimalLiteral t
          else if c = 0x2D then map_option negate (StrUnsignedDecimalLiteral t)
          else StrUnsignedDecimalLiteral s)"

definition NonDecimalIntegerLiteral :: "jsstring \<Rightarrow> jsnum option" where
  "NonDecimalIntegerLiteral s =
     (case s of
        z # p # ds \<Rightarrow>
          (let radix = (if p = 0x78 \<or> p = 0x58 then 16
                        else if p = 0x6F \<or> p = 0x4F then 8
                        else if p = 0x62 \<or> p = 0x42 then 2
                        else (0::nat))
           in if z = 0x30 \<and> radix \<noteq> 0 \<and> ds \<noteq> [] \<and> list_all (\<lambda>c. digit_value c < radix) ds
              then Some (to_double_range (real (digits_value radix ds)))
              else None)
      | _ \<Rightarrow> None)"

definition StringToNumber :: "jsstring \<Rightarrow> jsnum" where
  "StringToNumber s =
     (let t = trim s
      in if t = [] then Fin 0
         else
           (case NonDecimalIntegerLiteral t of
              Some n \<Rightarrow> n
            | None \<Rightarrow> (case StrDecimalLiteral t of Some n \<Rightarrow> n | None \<Rightarrow> NaN)))"

subsection \<open>Binary64 arithmetic\<close>

text \<open>
  An arithmetic operation of JavaScript rounds its exact result to binary64: to the
  nearest number \<open>m * 2\<^sup>k\<close> with \<open>\<bar>m\<bar> < 2\<^sup>5\<^sup>3\<close> and \<open>k \<ge> -1074\<close>, a tie going to the even
  \<open>m\<close>, and to an infinity when that number would reach \<open>2\<^sup>1\<^sup>0\<^sup>2\<^sup>4\<close>. A numeric literal
  is rounded in the same way.
\<close>

definition pow2 :: "int \<Rightarrow> real" where
  "pow2 k = (if 0 \<le> k then 2 ^ nat k else 1 / 2 ^ nat (- k))"

definition round_ties_even :: "real \<Rightarrow> int" where
  "round_ties_even x =
     (let f = \<lfloor>x\<rfloor>; d = x - of_int f
      in if d < 1 / 2 then f else if 1 / 2 < d then f + 1 else if even f then f else f + 1)"

text \<open>
  The exponent \<open>e\<close> with \<open>2\<^sup>e \<le> \<bar>x\<bar> < 2\<^sup>e\<^sup>+\<^sup>1\<close>, not below that of the subnormal numbers;
  the numbers of this binade are \<open>2\<^sup>e\<^sup>-\<^sup>5\<^sup>2\<close> apart.
\<close>

definition binade :: "real \<Rightarrow> int" where
  "binade x = max (- 1022) \<lfloor>log 2 \<bar>x\<bar>\<rfloor>"

definition round_binary64 :: "real \<Rightarrow> jsnum" where
  "round_binary64 x =
     (if x = 0 then Fin 0
      else
        (let q = pow2 (binade x - 52);
             r = of_int (round_ties_even (x / q)) * q
         in if 2 ^ 1024 \<le> r then PosInf
            else if r \<le> - (2 ^ 1024) then NegInf
            else Fin r))"

text \<open>\<^verbatim>\<open>a + b\<close>, \<^verbatim>\<open>a - b\<close>, \<^verbatim>\<open>a * b\<close> and \<^verbatim>\<open>a / b\<close> on numbers.\<close>

fun js_add :: "jsnum \<Rightarrow> jsnum \<Rightarrow> jsnum" where
  "js_add (Fin x) (Fin y) = round_binary64 (x + y)"
| "js_add NaN b = NaN"
| "js_add a NaN = NaN"
| "js_add PosInf NegInf = NaN"
| "js_add NegInf PosInf = NaN"
| "js_add PosInf b = PosInf"
| "js_add a PosInf = PosInf"
| "js_add NegInf b = NegInf"
| "js_add a NegInf = NegInf"

definition js_sub :: "jsnum \<Rightarrow> jsnum \<Rightarrow> jsnum" where
  "js_sub a b = js_add a (negate b)"

fun is_negative :: "jsnum \<Rightarrow> bool" where
  "is_negative (Fin x) = (x < 0)"
| "is_negative NegInf = True"
| "is_negative a = False"

definition js_mul :: "jsnum \<Rightarrow> jsnum \<Rightarrow> jsnum" where
  "js_mul a b =
     (if a = NaN \<or> b = NaN then NaN
      else
        (case (a, b) of
           (Fin x, Fin y) \<Rightarrow> round_binary64 (x * y)
         | _ \<Rightarrow>
             if a = Fin 0 \<or> b = Fin 0 then NaN
             else if is_negative a \<noteq> is_negative b then NegInf
             else PosInf))"

text \<open>
  The sign of \<open>x / 0\<close> is that of \<open>x\<close> for the zero \<open>+0\<close>, the only zero here that is a
  divisor: the code divides by the literals 2 and 180 alone.
\<close>

definition js_div :: "jsnum \<Rightarrow> jsnum \<Rightarrow> jsnum" where
  "js_div a b =
     (if a = NaN \<or> b = NaN then NaN
      else
        (case (a, b) of
           (Fin x, Fin y) \<Rightarrow>
             if y \<noteq> 0 then round_binary64 (x / y)
             else if x = 0 then NaN
             else if x < 0 then NegInf
             else PosInf
         | (Fin x, _) \<Rightarrow> Fin 0
         | (_, Fin y) \<Rightarrow> if is_negative a \<noteq> (y < 0) then NegInf else PosInf
         | _ \<Rightarrow> NaN))"

text \<open>\<^verbatim>\<open>a <= b\<close>; a comparison with \<^verbatim>\<open>NaN\<close> is false.\<close>

fun js_le :: "jsnum \<Rightarrow> jsnum \<Rightarrow> bool" where
  "js_le NaN b = False"
| "js_le a NaN = False"
| "js_le NegInf b = True"
| "js_le a PosInf = True"
| "js_le (Fin x) (Fin y) = (x \<le> y)"
| "js_le a b = False"

text \<open>
  \<^verbatim>\<open>Math.round(v)\<close>: the integer nearest to the value, a tie going up, which is
  \<^const>\<open>round\<close>; and \<^verbatim>\<open>Math.max(a, b)\<close>, which is \<^verbatim>\<open>NaN\<close> as soon as an argument is.
\<close>

fun Math_round :: "jsnum \<Rightarrow> jsnum" where
  "Math_round (Fin x) = Fin (of_int (round x))"
| "Math_round a = a"

definition Math_max :: "jsnum \<Rightarrow> jsnum \<Rightarrow> jsnum" where
  "Math_max a b = (if a = NaN \<or> b = NaN then NaN else if js_le a b then b else a)"

subsection \<open>Response bodies\<close>

text \<open>
  What \<^verbatim>\<open>JSON.parse\<close> returns. An object is the list of its own properties, the keys
  distinct.
\<close>

datatype json =
    JNull
  | JBool bool
  | JNum jsnum
  | JStr jsstring
  | JArr "json list"
  | JObj "(jsstring \<times> json) list"

text \<open>\<^verbatim>\<open>!!v\<close>; \<open>None\<close> is \<^verbatim>\<open>undefined\<close>.\<close>

fun truthy :: "json \<Rightarrow> bool" where
  "truthy JNull = False"
| "truthy (JBool b) = b"
| "truthy (JNum n) = truthy_num n"
| "truthy (JStr s) = (s \<noteq> [])"
| "truthy (JArr xs) = True"
| "truthy (JObj fs) = True"

fun truthy_opt :: "json option \<Rightarrow> bool" where
  "truthy_opt None = False"
| "truthy_opt (Some v) = truthy v"

text \<open>
  \<^verbatim>\<open>v.k\<close> for a value that is not \<^verbatim>\<open>null\<close> and a key \<open>k\<close> among those this program reads
  (\<^verbatim>\<open>results\<close>, \<^verbatim>\<open>data\<close>, \<^verbatim>\<open>detail\<close>, \<^verbatim>\<open>error\<close>, \<^verbatim>\<open>message\<close>, \<^verbatim>\<open>issue\<close>, \<^verbatim>\<open>code\<close>,
  \<^verbatim>\<open>price_min\<close>, \<^verbatim>\<open>price_max\<close>, \<^verbatim>\<open>hours\<close>, \<^verbatim>\<open>id\<close>): none of them is a property of
  an array, a string, a number or a boolean, so only an object can have it.
\<close>

fun get_prop :: "json \<Rightarrow> string \<Rightarrow> json option" where
  "get_prop (JObj fs) k = map_of fs (ascii k)"
| "get_prop v k = None"

text \<open>\<^verbatim>\<open>v?.k\<close>, where \<open>v\<close> may be \<^verbatim>\<open>undefined\<close> or \<^verbatim>\<open>null\<close>.\<close>

fun opt_prop :: "json option \<Rightarrow> string \<Rightarrow> json option" where
  "opt_prop None k = None"
| "opt_prop (Some JNull) k = None"
| "opt_prop (Some v) k = get_prop v k"

text \<open>
  \<^verbatim>\<open>Number(v)\<close>. An array goes through its string form: the empty array and
  \<^verbatim>\<open>[null]\<close> give the empty string, hence 0; a one-element array gives the string of
  its element; a longer one contains a comma, hence \<^verbatim>\<open>NaN\<close>. An object gives
  \<^verbatim>\<open>"[object Object]"\<close>, hence \<^verbatim>\<open>NaN\<close>.
\<close>

fun ToNumber :: "json \<Rightarrow> jsnum" where
  "ToNumber JNull = Fin 0"
| "ToNumber (JBool b) = Fin (if b then 1 else 0)"
| "ToNumber (JNum n) = n"
| "ToNumber (JStr s) = StringToNumber s"
| "ToNumber (JObj fs) = NaN"
| "ToNumber (JArr []) = Fin 0"
| "ToNumber (JArr [JNull]) = Fin 0"
| "ToNumber (JArr [JBool b]) = NaN"
| "ToNumber (JArr [x]) = ToNumber x"
| "ToNumber (JArr (x # y # zs)) = NaN"

fun Number_js :: "json option \<Rightarrow> jsnum" where
  "Number_js None = NaN"
| "Number_js (Some v) = ToNumber v"

subsection \<open>Pricing estimator (\<^verbatim>\<open>Repair\<close>, App.tsx 739-754 and 872-887)\<close>

text \<open>\<^verbatim>\<open>{ min: number; max: number; hours: number }\<close>, the numbers finite.\<close>

record PriceRange =
  min_price :: real
  max_price :: real
  hours :: real

text \<open>\<^verbatim>\<open>{ priceMid, time }\<close>\<close>

record Estimate =
  priceMid :: jsnum
  time :: jsnum

text \<open>
  \<^verbatim>\<open>Record<string, {min, max, hours}>\<close>: the own properties of the object. The key
  \<^verbatim>\<open>__proto__\<close> is never an own property of an object filled by assignment:
  \<^verbatim>\<open>m["__proto__"] = {...}\<close> installs the value as the prototype of \<open>m\<close>, and an entry
  of the map under that key stands for it.
\<close>

type_synonym PriceMap = "jsstring \<rightharpoonup> PriceRange"

definition FALLBACK_PRICES :: PriceMap where
  "FALLBACK_PRICES = map_of
     [(ascii ''screen'',   \<lparr>min_price = 7000, max_price = 12000, hours = 2\<rparr>),
      (ascii ''battery'',  \<lparr>min_price = 3000, max_price = 6000,  hours = 1\<rparr>),
      (ascii ''back'',     \<lparr>min_price = 4000, max_price = 9000,  hours = 2\<rparr>),
      (ascii ''camera'',   \<lparr>min_price = 3500, max_price = 8000,  hours = 1.5\<rparr>),
      (ascii ''charging'', \<lparr>min_price = 2500, max_price = 6000,  hours = 1\<rparr>),
      (ascii ''water'',    \<lparr>min_price = 5000, max_price = 9000,  hours = 3\<rparr>),
      (ascii ''speaker'',  \<lparr>min_price = 2000, max_price = 5000,  hours = 1\<rparr>)]"

text \<open>
  \<^verbatim>\<open>priceMap\<close> and \<^verbatim>\<open>FALLBACK_PRICES\<close> are plain objects, so \<^verbatim>\<open>obj[key]\<close> is the own
  property \<open>key\<close> if there is one, else what the prototype chain has under that name,
  else \<^verbatim>\<open>undefined\<close>. The chain ends in \<^verbatim>\<open>Object.prototype\<close>, whose members are
  functions, \<^verbatim>\<open>__proto__\<close> giving the prototype itself: all truthy, none with a
  \<^verbatim>\<open>min\<close>, \<^verbatim>\<open>max\<close> or \<^verbatim>\<open>hours\<close>. A prototype installed by a row of code
  \<^verbatim>\<open>__proto__\<close> comes first in the chain and adds its three numbers, truthy unless
  zero.
\<close>

definition Object_prototype_members :: "jsstring list" where
  "Object_prototype_members =
     map ascii
       [''constructor'', ''hasOwnProperty'', ''isPrototypeOf'', ''propertyIsEnumerable'',
        ''toLocaleString'', ''toString'', ''valueOf'', ''__proto__'', ''__defineGetter__'',
        ''__defineSetter__'', ''__lookupGetter__'', ''__lookupSetter__'']"

text \<open>
  What a lookup finds, as far as \<^verbatim>\<open>||\<close> and the estimator can tell: an entry, or a
  truthy value without the three fields; \<open>None\<close> is \<^verbatim>\<open>undefined\<close> or a zero, both
  falsy.
\<close>

datatype member = Entry PriceRange | Inherited

definition inherited_number :: "real \<Rightarrow> member option" where
  "inherited_number v = (if v = 0 then None else Some Inherited)"

definition get_member :: "PriceMap \<Rightarrow> jsstring \<Rightarrow> member option" where
  "get_member obj key =
     (case obj key of
        Some p \<Rightarrow> Some (Entry p)
      | None \<Rightarrow>
          (case obj (ascii ''__proto__'') of
             Some q \<Rightarrow>
               if key = ascii ''min'' then inherited_number (min_price q)
               else if key = ascii ''max'' then inherited_number (max_price q)
               else if key = ascii ''hours'' then inherited_number (hours q)
               else if key \<in> set Object_prototype_members then Some Inherited
               else None
           | None \<Rightarrow> if key \<in> set Object_prototype_members then Some Inherited else None))"

text \<open>
  \<^verbatim>\<open>priceMap[issueCode] || FALLBACK_PRICES[issueCode] || {min: 9000, max: 12000, hours: 1}\<close>:
  \<^verbatim>\<open>||\<close> falls through on a falsy value.
\<close>

definition currentBase :: "PriceMap \<Rightarrow> jsstring \<Rightarrow> member" where
  "currentBase priceMap issueCode =
     (case get_member priceMap issueCode of
        Some b \<Rightarrow> b
      | None \<Rightarrow>
          (case get_member FALLBACK_PRICES issueCode of
             Some b \<Rightarrow> b
           | None \<Rightarrow> Entry \<lparr>min_price = 9000, max_price = 12000, hours = 1\<rparr>))"

text \<open>
  \<^verbatim>\<open>currentBase.min\<close> and the like as operands of \<^verbatim>\<open>+\<close> and \<^verbatim>\<open>*\<close>: the number of an
  entry; of an inherited member \<^verbatim>\<open>undefined\<close>, which these operators convert to
  \<^verbatim>\<open>NaN\<close>.
\<close>

fun operand :: "(PriceRange \<Rightarrow> real) \<Rightarrow> member \<Rightarrow> jsnum" where
  "operand field (Entry p) = Fin (field p)"
| "operand field Inherited = NaN"

definition estimate :: "member \<Rightarrow> real \<Rightarrow> Estimate" where
  "estimate base urgency =
     (let coefUrgency =
            (if urgency = 3 then round_binary64 1.25
             else if urgency = 2 then round_binary64 1.1
             else Fin 1);
          priceMid =
            js_mul (js_div (js_add (operand min_price base) (operand max_price base)) (Fin 2))
              coefUrgency;
          time =
            Math_max (Fin 1)
              (Math_round
                 (js_mul (operand hours base)
                    (if urgency = 3 then round_binary64 0.8
                     else if urgency = 2 then round_binary64 1.0
                     else round_binary64 1.2)))
      in \<lparr>priceMid = priceMid, time = time\<rparr>)"

text \<open>
  The spec's urgency levels and its multipliers, as the numbers the literals of its
  tables denote.
\<close>

datatype UrgencyLevel = Standard | Faster | Urgent

fun level_number :: "UrgencyLevel \<Rightarrow> real" where
  "level_number Standard = 1"
| "level_number Faster = 2"
| "level_number Urgent = 3"

fun spec_price_multiplier :: "UrgencyLevel \<Rightarrow> jsnum" where
  "spec_price_multiplier Standard = round_binary64 1.0"
| "spec_price_multiplier Faster = round_binary64 1.1"
| "spec_price_multiplier Urgent = round_binary64 1.25"

fun spec_time_multiplier :: "UrgencyLevel \<Rightarrow> jsnum" where
  "spec_time_multiplier Standard = round_binary64 1.2"
| "spec_time_multiplier Faster = round_binary64 1.0"
| "spec_time_multiplier Urgent = round_binary64 0.8"

subsection \<open>Great-circle distance (\<^verbatim>\<open>haversine\<close>, App.tsx 57-67)\<close>

text \<open>
  ECMAScript leaves \<^verbatim>\<open>Math.sin\<close>, \<^verbatim>\<open>Math.cos\<close>, \<^verbatim>\<open>Math.atan2\<close>, \<^verbatim>\<open>Math.sqrt\<close> and
  \<^verbatim>\<open>**\<close> to the engine ("implementation-approximated") except at the arguments it
  lists. The engine's choice is an argument of the model: what it returns for a finite
  argument other than zero (for \<^verbatim>\<open>Math.atan2\<close>: for arguments that are not
  \<^verbatim>\<open>NaN\<close>).
\<close>

record Engine =
  sin_impl :: "real \<Rightarrow> real"
  cos_impl :: "real \<Rightarrow> real"
  sqrt_impl :: "real \<Rightarrow> real"
  square_impl :: "real \<Rightarrow> jsnum"
  atan2_impl :: "jsnum \<Rightarrow> jsnum \<Rightarrow> jsnum"

text \<open>\<^verbatim>\<open>Math.PI\<close>, the binary64 number nearest to \<open>\<pi>\<close>.\<close>

definition Math_PI :: jsnum where
  "Math_PI = Fin (884279719003555 / 2 ^ 48)"

fun Math_sin :: "Engine \<Rightarrow> jsnum \<Rightarrow> jsnum" where
  "Math_sin E (Fin x) = (if x = 0 then Fin 0 else Fin (sin_impl E x))"
| "Math_sin E a = NaN"

fun Math_cos :: "Engine \<Rightarrow> jsnum \<Rightarrow> jsnum" where
  "Math_cos E (Fin x) = (if x = 0 then Fin 1 else Fin (cos_impl E x))"
| "Math_cos E a = NaN"

text \<open>\<^verbatim>\<open>Math.sqrt(v)\<close> is \<^verbatim>\<open>NaN\<close> for every \<open>v\<close> below zero.\<close>

fun Math_sqrt :: "Engine \<Rightarrow> jsnum \<Rightarrow> jsnum" where
  "Math_sqrt E (Fin x) =
     (if x < 0 then NaN else if x = 0 then Fin 0 else Fin (sqrt_impl E x))"
| "Math_sqrt E NaN = NaN"
| "Math_sqrt E PosInf = PosInf"
| "Math_sqrt E NegInf = NaN"

text \<open>\<^verbatim>\<open>v ** 2\<close>\<close>

fun square :: "Engine \<Rightarrow> jsnum \<Rightarrow> jsnum" where
  "square E (Fin x) = (if x = 0 then Fin 0 else square_impl E x)"
| "square E NaN = NaN"
| "square E PosInf = PosInf"
| "square E NegInf = PosInf"

text \<open>
  \<^verbatim>\<open>Math.atan2(y, x)\<close> is \<^verbatim>\<open>NaN\<close> when an argument is, and zero for \<open>y\<close> zero and \<open>x\<close>
  above zero.
\<close>

definition Math_atan2 :: "Engine \<Rightarrow> jsnum \<Rightarrow> jsnum \<Rightarrow> jsnum" where
  "Math_atan2 E y x =
     (if y = NaN \<or> x = NaN then NaN
      else if y = Fin 0 \<and> js_le (Fin 0) x \<and> x \<noteq> Fin 0 then Fin 0
      else atan2_impl E y x)"

text \<open>The local \<^verbatim>\<open>a\<close> of \<^verbatim>\<open>haversine\<close>.\<close>

definition haversine_a :: "Engine \<Rightarrow> jsnum \<Rightarrow> jsnum \<Rightarrow> jsnum \<Rightarrow> jsnum \<Rightarrow> jsnum" where
  "haversine_a E lat1 lon1 lat2 lon2 =
     (let dLat = js_div (js_mul (js_sub lat2 lat1) Math_PI) (Fin 180);
          dLon = js_div (js_mul (js_sub lon2 lon1) Math_PI) (Fin 180)
      in js_add
           (square E (Math_sin E (js_div dLat (Fin 2))))
           (js_mul
              (js_mul (Math_cos E (js_div (js_mul lat1 Math_PI) (Fin 180)))
                      (Math_cos E (js_div (js_mul lat2 Math_PI) (Fin 180))))
              (square E (Math_sin E (js_div dLon (Fin 2))))))"

definition haversine :: "Engine \<Rightarrow> jsnum \<Rightarrow> jsnum \<Rightarrow> jsnum \<Rightarrow> jsnum \<Rightarrow> jsnum" where
  "haversine E lat1 lon1 lat2 lon2 =
     (let R = Fin 6371;
          a = haversine_a E lat1 lon1 lat2 lon2
      in js_mul (js_mul (Fin 2) R)
           (Math_atan2 E (Math_sqrt E a) (Math_sqrt E (js_sub (Fin 1) a))))"

subsection \<open>Center ranking (\<^verbatim>\<open>MapPicker\<close>, App.tsx 475-503)\<close>

text \<open>
  \<^verbatim>\<open>{ lat: number; lng: number }\<close>, and a center, which has both fields too; the
  coordinates are finite numbers.
\<close>

record LatLng =
  lat :: real
  lng :: real

record Center = LatLng +
  center_id :: real
  center_name :: jsstring
  address :: jsstring

text \<open>
  \<^verbatim>\<open>Array.prototype.sort(comparefn)\<close>. A \<^verbatim>\<open>NaN\<close> from the comparator counts as \<open>+0\<close>.
  For a consistent comparator ECMAScript fixes the result: the elements in
  non-decreasing order of the comparator, elements that compare equal keeping their
  order. Insertion from the right computes that result: an element goes in front of
  the first element it does not exceed.
\<close>

fun not_above_zero :: "jsnum \<Rightarrow> bool" where
  "not_above_zero (Fin v) = (v \<le> 0)"
| "not_above_zero NaN = True"
| "not_above_zero NegInf = True"
| "not_above_zero PosInf = False"

fun sort_insert :: "('a \<Rightarrow> 'a \<Rightarrow> jsnum) \<Rightarrow> 'a \<Rightarrow> 'a list \<Rightarrow> 'a list" where
  "sort_insert comparefn x [] = [x]"
| "sort_insert comparefn x (y # ys) =
     (if not_above_zero (comparefn x y) then x # y # ys
      else y # sort_insert comparefn x ys)"

fun Array_sort :: "('a \<Rightarrow> 'a \<Rightarrow> jsnum) \<Rightarrow> 'a list \<Rightarrow> 'a list" where
  "Array_sort comparefn [] = []"
| "Array_sort comparefn (x # xs) = sort_insert comparefn x (Array_sort comparefn xs)"

text \<open>The spec's \<open>distanceKm(userPos, center.location)\<close>, as the code computes it.\<close>

definition distanceKm :: "Engine \<Rightarrow> LatLng \<Rightarrow> Center \<Rightarrow> jsnum" where
  "distanceKm E u c = haversine E (Fin (lat u)) (Fin (lng u)) (Fin (lat c)) (Fin (lng c))"

text \<open>
  \<^verbatim>\<open>userPos\<close> is an object or \<^verbatim>\<open>null\<close>, so \<^verbatim>\<open>!userPos\<close> holds exactly for
  \<open>None\<close>. The sort works on a copy (\<^verbatim>\<open>[...centers]\<close>).
\<close>

definition centersSorted :: "Engine \<Rightarrow> LatLng option \<Rightarrow> Center list \<Rightarrow> Center list" where
  "centersSorted E userPos centers =
     (case userPos of
        None \<Rightarrow> centers
      | Some u \<Rightarrow>
          Array_sort
            (\<lambda>a b. let da = haversine E (Fin (lat u)) (Fin (lng u)) (Fin (lat a)) (Fin (lng a));
                       db = haversine E (Fin (lat u)) (Fin (lng u)) (Fin (lat b)) (Fin (lng b))
                   in js_sub da db)
            centers)"

subsection \<open>Model prices (\<^verbatim>\<open>Repair\<close>, App.tsx 815-841)\<close>

fun finite_value :: "jsnum \<Rightarrow> real" where
  "finite_value (Fin x) = x"
| "finite_value n = 0"

text \<open>
  The body of \<^verbatim>\<open>for (const r of rows)\<close>. \<^verbatim>\<open>m[code]\<close> takes the string \<open>code\<close> as the
  key; \<open>ToPropertyKey\<close> stands for ECMAScript's coercion of any other value to a
  key (it needs the binary64 digits of a number), and is applied to nothing else.
\<close>

definition price_row :: "(json \<Rightarrow> jsstring) \<Rightarrow> json \<Rightarrow> PriceMap \<Rightarrow> PriceMap" where
  "price_row ToPropertyKey r m =
     (let code = opt_prop (opt_prop (Some r) ''issue'') ''code''
      in if \<not> truthy_opt code then m
         else
           (let min = Number_js (get_prop r ''price_min'');
                max = Number_js (get_prop r ''price_max'');
                hours = Number_js (get_prop r ''hours'')
            in if Number_isFinite min \<and> Number_isFinite max
               then m((case code of Some (JStr s) \<Rightarrow> s | Some c \<Rightarrow> ToPropertyKey c | None \<Rightarrow> [])
                      \<mapsto> \<lparr>min_price = finite_value min,
                          max_price = finite_value max,
                          hours = (if Number_isFinite hours then finite_value hours else 1)\<rparr>)
               else m))"

text \<open>
  The \<^verbatim>\<open>.then\<close> handler with its \<^verbatim>\<open>.catch\<close>: the value of \<^verbatim>\<open>priceMap\<close> afterwards.
  \<^verbatim>\<open>for ... of\<close> iterates an array; a string is iterated by characters, none of which
  has an \<^verbatim>\<open>issue\<close>, so the map stays empty; any other value is not iterable, the
  \<^verbatim>\<open>TypeError\<close> reaches \<^verbatim>\<open>.catch(() => setPriceMap({}))\<close>.
\<close>

definition getModelPrices_then :: "(json \<Rightarrow> jsstring) \<Rightarrow> json \<Rightarrow> PriceMap" where
  "getModelPrices_then ToPropertyKey rows =
     (case rows of
        JArr rs \<Rightarrow> fold (price_row ToPropertyKey) rs Map.empty
      | JStr s \<Rightarrow> Map.empty
      | _ \<Rightarrow> Map.empty)"

text \<open>
  The whole effect: \<open>result\<close> is what \<^verbatim>\<open>getModelPrices(modelId)\<close> settles to,
  \<open>Inl\<close> a rejection.
\<close>

definition priceMap_effect ::
    "(json \<Rightarrow> jsstring) \<Rightarrow> jsnum option \<Rightarrow> jsstring + json \<Rightarrow> PriceMap" where
  "priceMap_effect ToPropertyKey modelId result =
     (if (case modelId of None \<Rightarrow> True | Some n \<Rightarrow> \<not> truthy_num n) then Map.empty
      else
        (case result of
           Inr rows \<Rightarrow> getModelPrices_then ToPropertyKey rows
         | Inl e \<Rightarrow> Map.empty))"

subsection \<open>List responses (\<^verbatim>\<open>Repair\<close>, App.tsx 774-813 and 843-853)\<close>

definition Array_isArray :: "json \<Rightarrow> bool" where
  "Array_isArray v = (case v of JArr xs \<Rightarrow> True | _ \<Rightarrow> False)"

text \<open>\<^verbatim>\<open>x || []\<close>\<close>

definition or_empty_array :: "json option \<Rightarrow> json" where
  "or_empty_array x = (case x of None \<Rightarrow> JArr [] | Some v \<Rightarrow> if truthy v then v else JArr [])"

text \<open>\<^verbatim>\<open>Array.isArray(data) ? data : data?.results || []\<close>, written three times.\<close>

definition getBrands_arr :: "json \<Rightarrow> json" where
  "getBrands_arr data =
     (if Array_isArray data then data else or_empty_array (opt_prop (Some data) ''results''))"

definition getDeviceModels_arr :: "json \<Rightarrow> json" where
  "getDeviceModels_arr data =
     (if Array_isArray data then data else or_empty_array (opt_prop (Some data) ''results''))"

definition getIssues_arr :: "json \<Rightarrow> json" where
  "getIssues_arr d =
     (if Array_isArray d then d else or_empty_array (opt_prop (Some d) ''results''))"

text \<open>
  \<^verbatim>\<open>(Array.isArray(data) && data) || (data && (data.results || data.data)) || []\<close>;
  an array is truthy.
\<close>

definition getCenters_arr :: "json \<Rightarrow> json" where
  "getCenters_arr data =
     (if Array_isArray data then data
      else if \<not> truthy data then JArr []
      else or_empty_array
             (if truthy_opt (get_prop data ''results'') then get_prop data ''results''
              else get_prop data ''data''))"

subsection \<open>HTTP wrapper (\<^verbatim>\<open>http\<close>, api.ts 33-58)\<close>

text \<open>What the wrapper reads of the response; \<open>body\<close> is \<^verbatim>\<open>await res.text()\<close>.\<close>

record Response =
  ok :: bool
  statusText :: jsstring
  body :: jsstring

text \<open>\<^verbatim>\<open>a || b || c\<close> as far as a truthy value is concerned.\<close>

fun first_truthy :: "json option list \<Rightarrow> json option" where
  "first_truthy [] = None"
| "first_truthy (x # xs) = (if truthy_opt x then x else first_truthy xs)"

text \<open>\<^verbatim>\<open>typeof msg === "string" ? msg : JSON.stringify(msg)\<close>\<close>

definition message_string :: "(json \<Rightarrow> jsstring) \<Rightarrow> json \<Rightarrow> jsstring" where
  "message_string JSON_stringify msg = (case msg of JStr s \<Rightarrow> s | _ \<Rightarrow> JSON_stringify msg)"

text \<open>
  \<open>JSON_parse\<close> (\<open>None\<close> when it throws) and \<open>JSON_stringify\<close> are the engine's
  functions, taken as arguments. \<open>http_data\<close> is the local \<^verbatim>\<open>data\<close>; \<open>Inl m\<close> is
  \<^verbatim>\<open>throw new Error(m)\<close>, \<open>Inr data\<close> the value returned.
\<close>

definition http_data :: "(jsstring \<Rightarrow> json option) \<Rightarrow> Response \<Rightarrow> json" where
  "http_data JSON_parse res =
     (if body res \<noteq> []
      then (case JSON_parse (body res) of Some v \<Rightarrow> v | None \<Rightarrow> JStr (body res))
      else JNull)"

definition http ::
    "(jsstring \<Rightarrow> json option) \<Rightarrow> (json \<Rightarrow> jsstring) \<Rightarrow> Response \<Rightarrow> jsstring + json" where
  "http JSON_parse JSON_stringify res =
     (let data = http_data JSON_parse res
      in if \<not> ok res then
           (let msg =
                  (case (if truthy data
                         then first_truthy [get_prop data ''detail'', get_prop data ''error'',
                                            get_prop data ''message'']
                         else None) of
                     Some v \<Rightarrow> v
                   | None \<Rightarrow>
                       if statusText res \<noteq> [] then JStr (statusText res)
                       else JStr (ascii ''Request failed''))
            in Inl (message_string JSON_stringify msg))
         else Inr data)"

text \<open>
  The error message as the claim words it: the \<^verbatim>\<open>detail\<close> field if present, else
  \<^verbatim>\<open>error\<close>, else \<^verbatim>\<open>message\<close>, else the status text, else "Request failed".
\<close>

definition spec_error_message :: "json \<Rightarrow> jsstring \<Rightarrow> json" where
  "spec_error_message data status =
     (case get_prop data ''detail'' of
        Some v \<Rightarrow> v
      | None \<Rightarrow>
          (case get_prop data ''error'' of
             Some v \<Rightarrow> v
           | None \<Rightarrow>
               (case get_prop data ''message'' of
                  Some v \<Rightarrow> v
                | None \<Rightarrow> if status \<noteq> [] then JStr status else JStr (ascii ''Request failed''))))"

subsection \<open>Request submission (\<^verbatim>\<open>Repair\<close>, App.tsx 717-772 and 863-921)\<close>

record Brand =
  brand_id :: real
  brand_name :: jsstring

record DeviceModel =
  model_id :: real
  model_name :: jsstring
  model_brand :: Brand

record Issue =
  code :: jsstring
  issue_name :: jsstring

text \<open>The \<^verbatim>\<open>useState\<close> cells of \<^verbatim>\<open>Repair\<close>; \<open>None\<close> is \<^verbatim>\<open>null\<close>.\<close>

record RepairState =
  brands :: "Brand list"
  models :: "DeviceModel list"
  brandId :: "jsnum option"
  modelId :: "jsnum option"
  modelSearch :: jsstring
  issues :: "Issue list"
  issueCode :: jsstring
  priceMap :: PriceMap
  urgency :: real
  desc :: jsstring
  selectedCenterId :: "jsstring option"
  userPos :: "LatLng option"
  centers :: "Center list"
  showDialog :: bool
  name :: jsstring
  phone :: jsstring
  agree :: bool

text \<open>The body of \<^verbatim>\<open>POST /repairs/\<close>.\<close>

record Payload =
  brand :: jsstring
  model :: jsstring
  issue :: jsstring
  payload_urgency :: real
  description :: jsstring
  center :: jsnum
  customer_name :: jsstring
  customer_phone :: jsstring
  agree_to_offer :: bool

text \<open>
  What \<^verbatim>\<open>submit\<close> does besides setting state, in order: the backend call, then
  \<^verbatim>\<open>onOrder(String(created.id))\<close> with the value of \<^verbatim>\<open>created.id\<close>, or the \<^verbatim>\<open>alert\<close> of
  the \<^verbatim>\<open>catch\<close> block, with the message of the rejection or for the \<^verbatim>\<open>TypeError\<close> of
  reading \<^verbatim>\<open>id\<close> of \<^verbatim>\<open>null\<close>.
\<close>

datatype submit_effect =
    CreateRequest Payload
  | OnOrder "json option"
  | AlertRejected jsstring
  | AlertTypeError

definition phoneOk :: "RepairState \<Rightarrow> bool" where
  "phoneOk s \<longleftrightarrow> 7 \<le> length (filter isDigit (phone s))"

definition nameOk :: "RepairState \<Rightarrow> bool" where
  "nameOk s \<longleftrightarrow> 2 \<le> length (trim (name s))"

definition selectedBrandName :: "RepairState \<Rightarrow> jsstring" where
  "selectedBrandName s =
     (case find (\<lambda>b. Some (Fin (brand_id b)) = brandId s) (brands s) of
        Some b \<Rightarrow> brand_name b
      | None \<Rightarrow> [])"

definition selectedModelName :: "RepairState \<Rightarrow> jsstring" where
  "selectedModelName s =
     (case find (\<lambda>m. Some (Fin (model_id m)) = modelId s) (models s) of
        Some m \<Rightarrow> model_name m
      | None \<Rightarrow> [])"

text \<open>\<^verbatim>\<open>!x\<close> for a string or \<^verbatim>\<open>null\<close>, and for a number or \<^verbatim>\<open>null\<close>.\<close>

fun not_string :: "jsstring option \<Rightarrow> bool" where
  "not_string None = True"
| "not_string (Some s) = (s = [])"

fun not_number :: "jsnum option \<Rightarrow> bool" where
  "not_number None = True"
| "not_number (Some n) = (\<not> truthy_num n)"

text \<open>The guard of \<^verbatim>\<open>submit\<close>, negated: the call goes on.\<close>

definition submit_runs :: "RepairState \<Rightarrow> bool" where
  "submit_runs s \<longleftrightarrow>
     \<not> (not_string (selectedCenterId s) \<or> \<not> agree s \<or> \<not> nameOk s \<or> \<not> phoneOk s
        \<or> not_number (brandId s) \<or> not_number (modelId s))"

definition submit_payload :: "RepairState \<Rightarrow> Payload" where
  "submit_payload s =
     \<lparr>brand = selectedBrandName s,
      model = selectedModelName s,
      issue = issueCode s,
      payload_urgency = urgency s,
      description = desc s,
      center = (case selectedCenterId s of Some c \<Rightarrow> StringToNumber c | None \<Rightarrow> Fin 0),
      customer_name = trim (name s),
      customer_phone = trim (phone s),
      agree_to_offer = True\<rparr>"

text \<open>
  \<open>createRequest\<close> is the backend: \<open>Inl m\<close> a rejection with message \<open>m\<close>, \<open>Inr v\<close> the
  body the wrapper returns. The state setters run before \<^verbatim>\<open>created.id\<close> is read.
\<close>

definition submit ::
    "(Payload \<Rightarrow> jsstring + json) \<Rightarrow> RepairState \<Rightarrow> RepairState \<times> submit_effect list" where
  "submit createRequest s =
     (if \<not> submit_runs s then (s, [])
      else
        (let payload = submit_payload s
         in case createRequest payload of
              Inr created \<Rightarrow>
                (let s' = s\<lparr>showDialog := False, name := [], phone := [], agree := False,
                            desc := []\<rparr>
                 in case created of
                      JNull \<Rightarrow> (s', [CreateRequest payload, AlertTypeError])
                    | _ \<Rightarrow> (s', [CreateRequest payload, OnOrder (get_prop created ''id'')]))
            | Inl m \<Rightarrow> (s, [CreateRequest payload, AlertRejected m])))"

text \<open>
  The preconditions as the spec words them: a center is selected, the agreement flag
  is true, the name has at least 2 non-whitespace characters, the phone has at least
  7 digits, a brand and a model are selected.
\<close>

definition spec_preconditions :: "RepairState \<Rightarrow> bool" where
  "spec_preconditions s \<longleftrightarrow>
     selectedCenterId s \<noteq> None
     \<and> agree s
     \<and> 2 \<le> length (filter (\<lambda>c. \<not> isWhiteSpace c) (name s))
     \<and> 7 \<le> length (filter isDigit (phone s))
     \<and> brandId s \<noteq> None
     \<and> modelId s \<noteq> None"

subsection \<open>Support message (\<^verbatim>\<open>Support\<close>, App.tsx 1168-1194)\<close>

text \<open>
  The three texts \<^verbatim>\<open>setToast\<close> is given: the request to fill both fields in, the
  confirmation, and the error with the message it quotes.
\<close>

datatype Toast = ToastFillIn | ToastSent | ToastError jsstring

record SupportState =
  rid :: jsstring
  message_text :: jsstring
  toast :: "Toast option"
  busy :: bool

record SupportPayload =
  repair_request :: jsnum
  payload_text :: jsstring

text \<open>\<^verbatim>\<open>m.replace(/^"|"$/g, "")\<close>: a leading and a trailing double quote go.\<close>

definition strip_quotes :: "jsstring \<Rightarrow> jsstring" where
  "strip_quotes m =
     (let m1 = (case m of [] \<Rightarrow> [] | c # t \<Rightarrow> if c = 0x22 then t else m)
      in if m1 \<noteq> [] \<and> last m1 = 0x22 then butlast m1 else m1)"

text \<open>
  \<open>createSupportMessage\<close> is the backend, as above. The message of a rejection is a
  string (an \<^verbatim>\<open>Error\<close> of the wrapper or of \<^verbatim>\<open>fetch\<close>). \<^verbatim>\<open>busy\<close> is set during the call
  and cleared in \<^verbatim>\<open>finally\<close>.
\<close>

definition send ::
    "(SupportPayload \<Rightarrow> jsstring + json) \<Rightarrow> SupportState
       \<Rightarrow> SupportState \<times> SupportPayload list" where
  "send createSupportMessage s =
     (let idNum = StringToNumber (rid s)
      in if \<not> truthy_num idNum \<or> trim (message_text s) = []
         then (s\<lparr>toast := Some ToastFillIn\<rparr>, [])
         else
           (let payload = \<lparr>repair_request = idNum, payload_text = trim (message_text s)\<rparr>
            in case createSupportMessage payload of
                 Inr r \<Rightarrow>
                   (s\<lparr>message_text := [], toast := Some ToastSent, busy := False\<rparr>, [payload])
               | Inl m \<Rightarrow>
                   (s\<lparr>toast := Some (ToastError (strip_quotes m)), busy := False\<rparr>,
                    [payload])))"

subsection \<open>Example inputs\<close>

text \<open>A row of \<^verbatim>\<open>GET /model-prices/\<close> for the issue "screen".\<close>

definition screen_row :: "json \<Rightarrow> json \<Rightarrow> json \<Rightarrow> json" where
  "screen_row price_min price_max hrs =
     JObj [(ascii ''id'', JNum (Fin 1)),
           (ascii ''device_model'', JNum (Fin 7)),
           (ascii ''issue'',
              JObj [(ascii ''id'', JNum (Fin 2)),
                    (ascii ''code'', JStr (ascii ''screen'')),
                    (ascii ''name'', JStr (ascii ''Screen''))]),
           (ascii ''price_min'', price_min),
           (ascii ''price_max'', price_max),
           (ascii ''hours'', hrs)]"

text \<open>A complete draft with the dialog open.\<close>

definition example_draft :: RepairState where
  "example_draft =
     \<lparr>brands = [\<lparr>brand_id = 1, brand_name = ascii ''Apple''\<rparr>],
      models = [\<lparr>model_id = 7, model_name = ascii ''iPhone 12'',
                 model_brand = \<lparr>brand_id = 1, brand_name = ascii ''Apple''\<rparr>\<rparr>],
      brandId = Some (Fin 1),
      modelId = Some (Fin 7),
      modelSearch = [],
      issues = [],
      issueCode = ascii ''screen'',
      priceMap = Map.empty,
      urgency = 2,
      desc = ascii ''cracked glass'',
      selectedCenterId = Some (ascii ''3''),
      userPos = None,
      centers = [],
      showDialog = True,
      name = ascii ''Ann Lee'',
      phone = ascii ''+7 (900) 123-45-67'',
      agree = True\<rparr>"

text \<open>
  The body \<^verbatim>\<open>{"detail":"","error":"E"}\<close> and its parse, and a parser that knows this
  text only.
\<close>

definition quoted :: "string \<Rightarrow> jsstring" where
  "quoted s = [0x22] @ ascii s @ [0x22]"

definition empty_detail_body :: jsstring where
  "empty_detail_body =
     ascii ''{'' @ quoted ''detail'' @ ascii '':'' @ quoted [] @ ascii '','' @
     quoted ''error'' @ ascii '':'' @ quoted ''E'' @ ascii ''}''"

definition empty_detail_json :: json where
  "empty_detail_json = JObj [(ascii ''detail'', JStr []), (ascii ''error'', JStr (ascii ''E''))]"

definition parse_empty_detail :: "jsstring \<Rightarrow> json option" where
  "parse_empty_detail t = (if t = empty_detail_body then Some empty_detail_json else None)"

text \<open>
  An engine given by its values at the arguments that occur in
  \<^verbatim>\<open>haversine(12, 0, lat, lng)\<close> for the points (-12, 180), (-12, 0) and (12, 0): the
  binary64 numbers nearest to the exact sines, cosines, squares, square roots and arc
  tangent. Its other values are arbitrary.
\<close>

definition antipode_engine :: Engine where
  "antipode_engine =
     \<lparr>sin_impl = (\<lambda>x. if x = - (7545853602163669 / 2 ^ 55) then - (7490808106342645 / 2 ^ 55)
                      else if x = 884279719003555 / 2 ^ 49 then 1
                      else 0),
      cos_impl = (\<lambda>x. if x = 7545853602163669 / 2 ^ 55 \<or> x = - (7545853602163669 / 2 ^ 55)
                      then 68831018284033 / 2 ^ 46
                      else 0),
      sqrt_impl = (\<lambda>x. if x = 6229706315924309 / 2 ^ 57 then 7490808106342645 / 2 ^ 55
                       else if x = 8617842609995723 / 2 ^ 53 then 68831018284033 / 2 ^ 46
                       else if x = 1 then 1
                       else 0),
      square_impl = (\<lambda>x. if x = - (7490808106342645 / 2 ^ 55) then Fin (6229706315924309 / 2 ^ 57)
                         else if x = 1 then Fin 1
                         else Fin 0),
      atan2_impl = (\<lambda>y x. if y = Fin (7490808106342645 / 2 ^ 55) \<and> x = Fin (68831018284033 / 2 ^ 46)
                          then Fin (1886463400540917 / 2 ^ 53)
                          else Fin 0)\<rparr>"

section \<open>Theorems\<close>

subsection \<open>Binary64 arithmetic\<close>

lemma pow2_powr: "pow2 k = 2 powr (of_int k)"
  by (simp add: pow2_def powr_realpow[symmetric] powr_minus_divide)

lemma binade_eqI:
  assumes "pow2 e \<le> \<bar>x\<bar>" "\<bar>x\<bar> < pow2 (e + 1)" "- 1022 \<le> e"
  shows "binade x = e"
proof -
  have "0 < pow2 e" by (simp add: pow2_def)
  with assms(1) have pos: "0 < \<bar>x\<bar>" by linarith
  have "of_int e \<le> log 2 \<bar>x\<bar>"
    using assms(1) pos by (simp add: pow2_powr le_log_iff)
  moreover have "log 2 \<bar>x\<bar> < of_int e + 1"
    using assms(2) pos by (simp add: pow2_powr log_less_iff)
  ultimately have "\<lfloor>log 2 \<bar>x\<bar>\<rfloor> = e" by (simp add: floor_unique)
  then show ?thesis using assms(3) by (simp add: binade_def)
qed

text \<open>
  Rounding a given number by hand: name its binade \<open>e\<close> and the rounded multiple \<open>m\<close>
  of \<open>2\<^sup>e\<^sup>-\<^sup>5\<^sup>2\<close>.
\<close>

lemma round_binary64_eqI:
  assumes "pow2 e \<le> \<bar>x\<bar>" "\<bar>x\<bar> < pow2 (e + 1)" "- 1022 \<le> e"
    and "round_ties_even (x / pow2 (e - 52)) = m"
    and "\<bar>of_int m * pow2 (e - 52)\<bar> < 2 ^ 1024"
  shows "round_binary64 x = Fin (of_int m * pow2 (e - 52))"
proof -
  have b: "binade x = e" by (rule binade_eqI[OF assms(1-3)])
  have "0 < pow2 e" by (simp add: pow2_def)
  with assms(1) have nz: "x \<noteq> 0" by auto
  from assms(5) have "\<not> 2 ^ 1024 \<le> of_int m * pow2 (e - 52)"
    "\<not> of_int m * pow2 (e - 52) \<le> - (2 ^ 1024)" by linarith+
  then show ?thesis using nz b assms(4) by (simp add: round_binary64_def Let_def)
qed

lemma round_binary64_not_NaN: "round_binary64 x \<noteq> NaN"
  by (simp add: round_binary64_def Let_def)

text \<open>The literals of the estimator.\<close>

lemma literal_1_25:
  "round_binary64 (5 / 4) = Fin (5 / 4)"
  using round_binary64_eqI [of "0" "5 / 4" "5629499534213120"]
  by (simp add: pow2_def round_ties_even_def)

lemma literal_1_1:
  "round_binary64 (11 / 10) = Fin (2476979795053773 / 2 ^ 51)"
  using round_binary64_eqI [of "0" "11 / 10" "4953959590107546"]
  by (simp add: pow2_def round_ties_even_def)

lemma literal_0_8:
  "round_binary64 (4 / 5) = Fin (3602879701896397 / 2 ^ 52)"
  using round_binary64_eqI [of "- 1" "4 / 5" "7205759403792794"]
  by (simp add: pow2_def round_ties_even_def)

lemma literal_1_2:
  "round_binary64 (6 / 5) = Fin (5404319552844595 / 2 ^ 52)"
  using round_binary64_eqI [of "0" "6 / 5" "5404319552844595"]
  by (simp add: pow2_def round_ties_even_def)

lemma literal_1_0:
  "round_binary64 1 = Fin 1"
  using round_binary64_eqI [of "0" "1 / 1" "4503599627370496"]
  by (simp add: pow2_def round_ties_even_def)

subsection \<open>Estimator\<close>

lemma at_least_one:
  "js_le (Fin 1) (Math_max (Fin 1) (Math_round (round_binary64 y)))"
  by (cases "round_binary64 y") (simp_all add: Math_max_def round_binary64_not_NaN)

text \<open>
  C1, as amended. For every price range of finite numbers and every urgency level (1, 2
  or 3) the estimator returns \<open>priceMid = ((min + max) / 2) * p(u)\<close> and
  \<open>time = max 1 (round (hours * t(u)))\<close>, where each of \<open>+\<close>, \<open>/\<close> and \<open>*\<close> rounds its
  result to binary64 and p = 1.0, 1.1, 1.25 and t = 1.2, 1.0, 0.8 are the binary64
  numbers of these literals; the time is at least 1 for every such range and every
  urgency number.
\<close>

theorem estimate_formula:
  "priceMid (estimate (Entry p) (level_number u)) =
     js_mul (js_div (js_add (Fin (min_price p)) (Fin (max_price p))) (Fin 2))
       (spec_price_multiplier u)
   \<and> time (estimate (Entry p) (level_number u)) =
     Math_max (Fin 1) (Math_round (js_mul (Fin (hours p)) (spec_time_multiplier u)))
   \<and> js_le (Fin 1) (time (estimate (Entry p) n))"
proof (intro conjI)
  show "priceMid (estimate (Entry p) (level_number u)) =
     js_mul (js_div (js_add (Fin (min_price p)) (Fin (max_price p))) (Fin 2))
       (spec_price_multiplier u)"
    by (cases u) (simp_all add: estimate_def Let_def literal_1_0 del: js_add.simps)
  show "time (estimate (Entry p) (level_number u)) =
     Math_max (Fin 1) (Math_round (js_mul (Fin (hours p)) (spec_time_multiplier u)))"
    by (cases u) (simp_all add: estimate_def Let_def)
  show "js_le (Fin 1) (time (estimate (Entry p) n))"
    by (simp add: estimate_def Let_def js_mul_def literal_0_8 literal_1_0 literal_1_2
          at_least_one)
qed

text \<open>Single operations of the examples below, rounded by hand.\<close>

lemma water_sum:
  "js_add (Fin (5000)) (Fin (9000)) = Fin (14000)"
  using round_binary64_eqI [of "13" "(5000) + (9000)" "7696581394432000"]
  by (simp add: js_sub_def pow2_def round_ties_even_def)

lemma water_half:
  "js_div (Fin (14000)) (Fin (2)) = Fin (7000)"
  using round_binary64_eqI [of "12" "(14000) / (2)" "7696581394432000"]
  by (simp add: js_div_def pow2_def round_ties_even_def)

lemma water_faster:
  "js_mul (Fin (7000)) (Fin (2476979795053773 / 2 ^ 51)) = Fin (8466239533875201 / 2 ^ 40)"
  using round_binary64_eqI [of "12" "(7000) * (2476979795053773 / 2 ^ 51)" "8466239533875201"]
  by (simp add: js_mul_def pow2_def round_ties_even_def)

lemma hours_urgent:
  "js_mul (Fin (8444249301319679 / 2 ^ 52)) (Fin (3602879701896397 / 2 ^ 52)) = Fin (3 / 2)"
  using round_binary64_eqI [of "0" "(8444249301319679 / 2 ^ 52) * (3602879701896397 / 2 ^ 52)" "6755399441055744"]
  by (simp add: js_mul_def pow2_def round_ties_even_def)

lemma screen_sum:
  "js_add (Fin (7000)) (Fin (12000)) = Fin (19000)"
  using round_binary64_eqI [of "14" "(7000) + (12000)" "5222680231936000"]
  by (simp add: js_sub_def pow2_def round_ties_even_def)

lemma screen_half:
  "js_div (Fin (19000)) (Fin (2)) = Fin (9500)"
  using round_binary64_eqI [of "13" "(19000) / (2)" "5222680231936000"]
  by (simp add: js_div_def pow2_def round_ties_even_def)

lemma screen_standard:
  "js_mul (Fin (9500)) (Fin (1)) = Fin (9500)"
  using round_binary64_eqI [of "13" "(9500) * (1)" "5222680231936000"]
  by (simp add: js_mul_def pow2_def round_ties_even_def)

lemma screen_hours:
  "js_mul (Fin (2)) (Fin (5404319552844595 / 2 ^ 52)) = Fin (5404319552844595 / 2 ^ 51)"
  using round_binary64_eqI [of "1" "(2) * (5404319552844595 / 2 ^ 52)" "5404319552844595"]
  by (simp add: js_mul_def pow2_def round_ties_even_def)

lemma default_sum:
  "js_add (Fin (9000)) (Fin (12000)) = Fin (21000)"
  using round_binary64_eqI [of "14" "(9000) + (12000)" "5772436045824000"]
  by (simp add: js_sub_def pow2_def round_ties_even_def)

lemma default_half:
  "js_div (Fin (21000)) (Fin (2)) = Fin (10500)"
  using round_binary64_eqI [of "13" "(21000) / (2)" "5772436045824000"]
  by (simp add: js_div_def pow2_def round_ties_even_def)

lemma default_standard:
  "js_mul (Fin (10500)) (Fin (1)) = Fin (10500)"
  using round_binary64_eqI [of "13" "(10500) * (1)" "5772436045824000"]
  by (simp add: js_mul_def pow2_def round_ties_even_def)

lemma default_hours:
  "js_mul (Fin (1)) (Fin (5404319552844595 / 2 ^ 52)) = Fin (5404319552844595 / 2 ^ 52)"
  using round_binary64_eqI [of "0" "(1) * (5404319552844595 / 2 ^ 52)" "5404319552844595"]
  by (simp add: js_mul_def pow2_def round_ties_even_def)

text \<open>
  C1 as stated fails, the formulas read in exact arithmetic. For the range
  (5000, 9000, 3) at urgency 2 the code's \<open>priceMid\<close> is \<open>7700 + 2\<^sup>-\<^sup>4\<^sup>0\<close>
  (7700.000000000001) and the formula gives 7700. For hours \<open>15/8 - 2\<^sup>-\<^sup>5\<^sup>2\<close>
  (1.8749999999999998) at urgency 3 the product with 0.8 rounds to 1.5, so the code's
  \<open>time\<close> is 2, and the formula gives 1. And where the base is an inherited member
  instead of a price range (C2), the time is \<^verbatim>\<open>NaN\<close>, which is not at least 1.
\<close>

theorem estimate_rounds_each_operation:
  "priceMid (estimate (Entry \<lparr>min_price = 5000, max_price = 9000, hours = 3\<rparr>) 2) = Fin (7700 + 1 / 2 ^ 40)
   \<and> ((5000 + 9000) / 2) * 1.1 = (7700 :: real)
   \<and> time (estimate (Entry \<lparr>min_price = 7000, max_price = 12000, hours = 8444249301319679 / 2 ^ 52\<rparr>) 3) = Fin 2
   \<and> max 1 (round ((8444249301319679 / 2 ^ 52) * 0.8 :: real)) = 1
   \<and> time (estimate Inherited 3) = NaN
   \<and> \<not> js_le (Fin 1) (time (estimate Inherited 3))"
proof (intro conjI)
  have "priceMid (estimate (Entry \<lparr>min_price = 5000, max_price = 9000, hours = 3\<rparr>) 2) =
      js_mul (js_div (js_add (Fin (5000)) (Fin (9000))) (Fin (2))) (round_binary64 (11 / 10))"
    by (simp add: estimate_def Let_def del: js_add.simps)
  also have "\<dots> = Fin (8466239533875201 / 2 ^ 40)"
    by (simp only: water_sum water_half literal_1_1 water_faster)
  also have "\<dots> = Fin (7700 + 1 / 2 ^ 40)"
    by simp
  finally show "priceMid (estimate (Entry \<lparr>min_price = 5000, max_price = 9000, hours = 3\<rparr>) 2) = Fin (7700 + 1 / 2 ^ 40)" .
  show "((5000 + 9000) / 2) * 1.1 = (7700 :: real)"
    by simp
  have "time (estimate (Entry \<lparr>min_price = 7000, max_price = 12000, hours = 8444249301319679 / 2 ^ 52\<rparr>) 3) =
      Math_max (Fin 1) (Math_round (js_mul (Fin (8444249301319679 / 2 ^ 52)) (round_binary64 (4 / 5))))"
    by (simp add: estimate_def Let_def)
  also have "\<dots> = Math_max (Fin 1) (Math_round (Fin (3 / 2)))"
    by (simp only: literal_0_8 hours_urgent)
  also have "\<dots> = Fin 2"
    by (simp add: Math_max_def round_def)
  finally show "time (estimate (Entry \<lparr>min_price = 7000, max_price = 12000, hours = 8444249301319679 / 2 ^ 52\<rparr>) 3) = Fin 2" .
  show "max 1 (round ((8444249301319679 / 2 ^ 52) * 0.8 :: real)) = 1"
    by (simp add: round_def)
  show "time (estimate Inherited 3) = NaN"
    by (simp add: estimate_def Let_def js_mul_def Math_max_def)
  then show "\<not> js_le (Fin 1) (time (estimate Inherited 3))"
    by simp
qed

text \<open>
  C2. For the issue code \<^verbatim>\<open>toString\<close> and an empty price map, \<^verbatim>\<open>priceMap[issueCode]\<close> is
  the inherited \<^verbatim>\<open>Object.prototype.toString\<close>: the chain stops at it, neither the
  static table nor the default (9000, 12000, 1) is used, and the estimate is
  \<^verbatim>\<open>NaN\<close> for the price and for the time, where the claim has 10500 and 1.
\<close>

theorem currentBase_inherited_member:
  "FALLBACK_PRICES (ascii ''toString'') = None
   \<and> currentBase Map.empty (ascii ''toString'') = Inherited
   \<and> estimate (currentBase Map.empty (ascii ''toString'')) 1 = \<lparr>priceMid = NaN, time = NaN\<rparr>"
  by (simp add: currentBase_def get_member_def Object_prototype_members_def
        FALLBACK_PRICES_def ascii_def estimate_def Let_def js_mul_def js_div_def Math_max_def)

text \<open>
  What holds of the fallback: for a code that is not the name of an inherited member,
  the price-map entry if present, else the static table's entry, else
  (9000, 12000, 1); "screen" at urgency 1 without a server price gives 9500 and 2
  hours, a code in neither table 10500 and 1 hour.
\<close>

lemma currentBase_three_tier:
  "(pm c = Some p \<longrightarrow> currentBase pm c = Entry p)
   \<and> (c \<notin> set Object_prototype_members \<and> pm (ascii ''__proto__'') = None \<and> pm c = None
       \<and> FALLBACK_PRICES c = Some q \<longrightarrow>
        currentBase pm c = Entry q)
   \<and> (c \<notin> set Object_prototype_members \<and> pm (ascii ''__proto__'') = None \<and> pm c = None
       \<and> FALLBACK_PRICES c = None \<longrightarrow>
        currentBase pm c = Entry \<lparr>min_price = 9000, max_price = 12000, hours = 1\<rparr>)"
proof -
  have "FALLBACK_PRICES (ascii ''__proto__'') = None"
    by (simp add: FALLBACK_PRICES_def ascii_def)
  then show ?thesis
    by (simp add: currentBase_def get_member_def)
qed

lemma estimate_screen_standard:
  "estimate (currentBase Map.empty (ascii ''screen'')) 1 = \<lparr>priceMid = Fin 9500, time = Fin 2\<rparr>"
proof -
  have "currentBase Map.empty (ascii ''screen'') = Entry \<lparr>min_price = 7000, max_price = 12000, hours = 2\<rparr>"
    by (simp add: currentBase_def get_member_def Object_prototype_members_def
          FALLBACK_PRICES_def ascii_def)
  then have "estimate (currentBase Map.empty (ascii ''screen'')) 1 =
      \<lparr>priceMid = js_mul (js_div (js_add (Fin (7000)) (Fin (12000))) (Fin (2))) (Fin (1)),
        time = Math_max (Fin 1) (Math_round (js_mul (Fin (2)) (round_binary64 (6 / 5))))\<rparr>"
    by (simp add: estimate_def Let_def del: js_add.simps)
  also have "\<dots> = \<lparr>priceMid = Fin (9500), time = Math_max (Fin 1) (Math_round (Fin (5404319552844595 / 2 ^ 51)))\<rparr>"
    by (simp only: screen_sum screen_half screen_standard literal_1_2 screen_hours)
  also have "\<dots> = \<lparr>priceMid = Fin 9500, time = Fin 2\<rparr>"
    by (simp add: Math_max_def round_def)
  finally show ?thesis .
qed

lemma estimate_unknown_standard:
  "estimate (currentBase Map.empty (ascii ''glass'')) 1 = \<lparr>priceMid = Fin 10500, time = Fin 1\<rparr>"
proof -
  have "currentBase Map.empty (ascii ''glass'') = Entry \<lparr>min_price = 9000, max_price = 12000, hours = 1\<rparr>"
    by (simp add: currentBase_def get_member_def Object_prototype_members_def
          FALLBACK_PRICES_def ascii_def)
  then have "estimate (currentBase Map.empty (ascii ''glass'')) 1 =
      \<lparr>priceMid = js_mul (js_div (js_add (Fin (9000)) (Fin (12000))) (Fin (2))) (Fin (1)),
        time = Math_max (Fin 1) (Math_round (js_mul (Fin (1)) (round_binary64 (6 / 5))))\<rparr>"
    by (simp add: estimate_def Let_def del: js_add.simps)
  also have "\<dots> = \<lparr>priceMid = Fin (10500), time = Math_max (Fin 1) (Math_round (Fin (5404319552844595 / 2 ^ 52)))\<rparr>"
    by (simp only: default_sum default_half default_standard literal_1_2 default_hours)
  also have "\<dots> = \<lparr>priceMid = Fin 10500, time = Fin 1\<rparr>"
    by (simp add: Math_max_def round_def)
  finally show ?thesis .
qed

subsection \<open>Great-circle distance\<close>

lemma Math_atan2_NaN: "Math_atan2 E y NaN = NaN"
  by (simp add: Math_atan2_def)

lemma js_mul_NaN: "js_mul v NaN = NaN"
  by (simp add: js_mul_def)

text \<open>
  The operations of \<^verbatim>\<open>haversine(12, 0, -12, 180)\<close> one by one, each rounded by hand, and
  the values the engine is asked for.
\<close>

lemma antipode_lat_diff:
  "js_sub (Fin (- 12)) (Fin (12)) = Fin (- 24)"
  using round_binary64_eqI [of "4" "(- 12) + - (12)" "- 6755399441055744"]
  by (simp add: js_sub_def pow2_def round_ties_even_def)

lemma antipode_lat_diff_pi:
  "js_mul (Fin (- 24)) Math_PI = Fin (- (2652839157010665 / 2 ^ 45))"
  using round_binary64_eqI [of "6" "(- 24) * (884279719003555 / 2 ^ 48)" "- 5305678314021330"]
  by (simp add: js_mul_def Math_PI_def pow2_def round_ties_even_def)

lemma antipode_dLat:
  "js_div (Fin (- (2652839157010665 / 2 ^ 45))) (Fin (180)) = Fin (- (7545853602163669 / 2 ^ 54))"
  using round_binary64_eqI [of "- 2" "(- (2652839157010665 / 2 ^ 45)) / (180)" "- 7545853602163669"]
  by (simp add: js_div_def pow2_def round_ties_even_def)

lemma antipode_lon_diff:
  "js_sub (Fin (180)) (Fin (0)) = Fin (180)"
  using round_binary64_eqI [of "7" "(180) + - (0)" "6333186975989760"]
  by (simp add: js_sub_def pow2_def round_ties_even_def)

lemma antipode_lon_diff_pi:
  "js_mul (Fin (180)) Math_PI = Fin (4974073419394997 / 2 ^ 43)"
  using round_binary64_eqI [of "9" "(180) * (884279719003555 / 2 ^ 48)" "4974073419394997"]
  by (simp add: js_mul_def Math_PI_def pow2_def round_ties_even_def)

lemma antipode_dLon:
  "js_div (Fin (4974073419394997 / 2 ^ 43)) (Fin (180)) = Fin (884279719003555 / 2 ^ 48)"
  using round_binary64_eqI [of "1" "(4974073419394997 / 2 ^ 43) / (180)" "7074237752028440"]
  by (simp add: js_div_def pow2_def round_ties_even_def)

lemma antipode_dLat_half:
  "js_div (Fin (- (7545853602163669 / 2 ^ 54))) (Fin (2)) = Fin (- (7545853602163669 / 2 ^ 55))"
  using round_binary64_eqI [of "- 3" "(- (7545853602163669 / 2 ^ 54)) / (2)" "- 7545853602163669"]
  by (simp add: js_div_def pow2_def round_ties_even_def)

lemma antipode_dLon_half:
  "js_div (Fin (884279719003555 / 2 ^ 48)) (Fin (2)) = Fin (884279719003555 / 2 ^ 49)"
  using round_binary64_eqI [of "0" "(884279719003555 / 2 ^ 48) / (2)" "7074237752028440"]
  by (simp add: js_div_def pow2_def round_ties_even_def)

lemma antipode_lat1_pi:
  "js_mul (Fin (12)) Math_PI = Fin (2652839157010665 / 2 ^ 46)"
  using round_binary64_eqI [of "5" "(12) * (884279719003555 / 2 ^ 48)" "5305678314021330"]
  by (simp add: js_mul_def Math_PI_def pow2_def round_ties_even_def)

lemma antipode_lat1_rad:
  "js_div (Fin (2652839157010665 / 2 ^ 46)) (Fin (180)) = Fin (7545853602163669 / 2 ^ 55)"
  using round_binary64_eqI [of "- 3" "(2652839157010665 / 2 ^ 46) / (180)" "7545853602163669"]
  by (simp add: js_div_def pow2_def round_ties_even_def)

lemma antipode_lat2_pi:
  "js_mul (Fin (- 12)) Math_PI = Fin (- (2652839157010665 / 2 ^ 46))"
  using round_binary64_eqI [of "5" "(- 12) * (884279719003555 / 2 ^ 48)" "- 5305678314021330"]
  by (simp add: js_mul_def Math_PI_def pow2_def round_ties_even_def)

lemma antipode_lat2_rad:
  "js_div (Fin (- (2652839157010665 / 2 ^ 46))) (Fin (180)) = Fin (- (7545853602163669 / 2 ^ 55))"
  using round_binary64_eqI [of "- 3" "(- (2652839157010665 / 2 ^ 46)) / (180)" "- 7545853602163669"]
  by (simp add: js_div_def pow2_def round_ties_even_def)

lemma antipode_sin_lat:
  "Math_sin antipode_engine (Fin (- (7545853602163669 / 2 ^ 55))) = Fin (- (7490808106342645 / 2 ^ 55))"
  by (simp add: antipode_engine_def)

lemma antipode_sin_lon:
  "Math_sin antipode_engine (Fin (884279719003555 / 2 ^ 49)) = Fin (1)"
  by (simp add: antipode_engine_def)

lemma antipode_cos_lat1:
  "Math_cos antipode_engine (Fin (7545853602163669 / 2 ^ 55)) = Fin (68831018284033 / 2 ^ 46)"
  by (simp add: antipode_engine_def)

lemma antipode_cos_lat2:
  "Math_cos antipode_engine (Fin (- (7545853602163669 / 2 ^ 55))) = Fin (68831018284033 / 2 ^ 46)"
  by (simp add: antipode_engine_def)

lemma antipode_square_lat:
  "square antipode_engine (Fin (- (7490808106342645 / 2 ^ 55))) = Fin (6229706315924309 / 2 ^ 57)"
  by (simp add: antipode_engine_def)

lemma antipode_square_lon:
  "square antipode_engine (Fin (1)) = Fin (1)"
  by (simp add: antipode_engine_def)

lemma antipode_cos_cos:
  "js_mul (Fin (68831018284033 / 2 ^ 46)) (Fin (68831018284033 / 2 ^ 46)) = Fin (2154460652498931 / 2 ^ 51)"
  using round_binary64_eqI [of "- 1" "(68831018284033 / 2 ^ 46) * (68831018284033 / 2 ^ 46)" "8617842609995724"]
  by (simp add: js_mul_def pow2_def round_ties_even_def)

lemma antipode_cos_cos_sin:
  "js_mul (Fin (2154460652498931 / 2 ^ 51)) (Fin (1)) = Fin (2154460652498931 / 2 ^ 51)"
  using round_binary64_eqI [of "- 1" "(2154460652498931 / 2 ^ 51) * (1)" "8617842609995724"]
  by (simp add: js_mul_def pow2_def round_ties_even_def)

lemma antipode_a_sum:
  "js_add (Fin (6229706315924309 / 2 ^ 57)) (Fin (2154460652498931 / 2 ^ 51)) = Fin (4503599627370497 / 2 ^ 52)"
  using round_binary64_eqI [of "0" "(6229706315924309 / 2 ^ 57) + (2154460652498931 / 2 ^ 51)" "4503599627370497"]
  by (simp add: js_sub_def pow2_def round_ties_even_def)

lemma antipode_one_minus_a:
  "js_sub (Fin (1)) (Fin (4503599627370497 / 2 ^ 52)) = Fin (- (1 / 2 ^ 52))"
  using round_binary64_eqI [of "- 52" "(1) + - (4503599627370497 / 2 ^ 52)" "- 4503599627370496"]
  by (simp add: js_sub_def pow2_def round_ties_even_def)

lemma haversine_a_antipode:
  "haversine_a antipode_engine (Fin (12)) (Fin (0)) (Fin (- 12)) (Fin (180)) = Fin (4503599627370497 / 2 ^ 52)"
  unfolding haversine_a_def Let_def
  by (simp only: antipode_lat_diff antipode_lat_diff_pi antipode_dLat
        antipode_lon_diff antipode_lon_diff_pi antipode_dLon antipode_dLat_half antipode_dLon_half antipode_lat1_pi
        antipode_lat1_rad antipode_lat2_pi antipode_lat2_rad antipode_sin_lat
        antipode_sin_lon antipode_cos_lat1 antipode_cos_lat2 antipode_square_lat
        antipode_square_lon antipode_cos_cos antipode_cos_cos_sin antipode_a_sum antipode_one_minus_a)

lemma haversine_antipode:
  "haversine antipode_engine (Fin (12)) (Fin (0)) (Fin (- 12)) (Fin (180)) = NaN"
proof -
  have "Math_sqrt antipode_engine (Fin (- (1 / 2 ^ 52))) = NaN"
    by simp
  then show ?thesis
    unfolding haversine_def Let_def
    by (simp only: haversine_a_antipode antipode_one_minus_a Math_atan2_NaN js_mul_NaN)
qed

text \<open>
  C6. At the valid points (12, 0) and (-12, 180) the term \<^verbatim>\<open>a\<close> rounds to
  \<open>1 + 2\<^sup>-\<^sup>5\<^sup>2\<close> (1.0000000000000002), \<^verbatim>\<open>1 - a\<close> is below zero, its square root is
  \<^verbatim>\<open>NaN\<close> and so is the distance: it is not a number at least 0.
\<close>

theorem haversine_antipode_not_a_distance:
  "haversine_a antipode_engine (Fin 12) (Fin 0) (Fin (- 12)) (Fin 180) = Fin (1 + 1 / 2 ^ 52)
   \<and> haversine antipode_engine (Fin 12) (Fin 0) (Fin (- 12)) (Fin 180) = NaN
   \<and> \<not> js_le (Fin 0) (haversine antipode_engine (Fin 12) (Fin 0) (Fin (- 12)) (Fin 180))"
  using haversine_a_antipode haversine_antipode by simp

subsection \<open>Center ranking\<close>

lemma mset_sort_insert: "mset (sort_insert f x xs) = add_mset x (mset xs)"
  by (induction xs) simp_all

text \<open>The ranking is a permutation of the centers, and the centers themselves without a position.\<close>

lemma mset_centersSorted: "mset (centersSorted E pos cs) = mset cs"
proof -
  have "mset (Array_sort f xs) = mset xs" for f :: "Center \<Rightarrow> Center \<Rightarrow> jsnum" and xs
    by (induction xs) (simp_all add: mset_sort_insert)
  then show ?thesis by (cases pos) (simp_all add: centersSorted_def)
qed

lemma centersSorted_None: "centersSorted E None cs = cs"
  by (simp add: centersSorted_def)

text \<open>
  A center whose distance is \<^verbatim>\<open>NaN\<close> makes every comparison with it \<^verbatim>\<open>NaN\<close>: between
  two other centers it keeps the list as it is, whatever their distances.
\<close>

lemma centersSorted_NaN_between:
  assumes "distanceKm E u b = NaN"
  shows "centersSorted E (Some u) [a, b, c] = [a, b, c]"
proof -
  have "js_sub NaN v = NaN" "js_sub v NaN = NaN" for v
    by (cases v; simp add: js_sub_def)+
  with assms show ?thesis
    by (simp add: centersSorted_def distanceKm_def Let_def)
qed

text \<open>
  Two more distances from (12, 0), operation by operation: to (-12, 0), and to the
  point itself. An operand that is zero gives zero.
\<close>

lemma zero_operands:
  "js_sub (Fin 0) (Fin 0) = Fin 0"
  "js_sub (Fin 12) (Fin 12) = Fin 0"
  "js_add (Fin 0) (Fin 0) = Fin 0"
  "js_mul (Fin 0) Math_PI = Fin 0"
  "js_mul (Fin x) (Fin 0) = Fin 0"
  "js_div (Fin 0) (Fin 180) = Fin 0"
  "js_div (Fin 0) (Fin 2) = Fin 0"
  "Math_sin E (Fin 0) = Fin 0"
  "square E (Fin 0) = Fin 0"
  "Math_sqrt E (Fin 0) = Fin 0"
  "Math_atan2 E (Fin 0) (Fin 1) = Fin 0"
  by (simp_all add: js_sub_def js_mul_def js_div_def Math_PI_def Math_atan2_def
        round_binary64_def)

lemma south_a_sum:
  "js_add (Fin (6229706315924309 / 2 ^ 57)) (Fin (0)) = Fin (6229706315924309 / 2 ^ 57)"
  using round_binary64_eqI [of "- 5" "(6229706315924309 / 2 ^ 57) + (0)" "6229706315924309"]
  by (simp add: js_sub_def pow2_def round_ties_even_def)

lemma south_sqrt_a:
  "Math_sqrt antipode_engine (Fin (6229706315924309 / 2 ^ 57)) = Fin (7490808106342645 / 2 ^ 55)"
  by (simp add: antipode_engine_def Math_atan2_def)

lemma south_one_minus_a:
  "js_sub (Fin (1)) (Fin (6229706315924309 / 2 ^ 57)) = Fin (8617842609995723 / 2 ^ 53)"
  using round_binary64_eqI [of "- 1" "(1) + - (6229706315924309 / 2 ^ 57)" "8617842609995723"]
  by (simp add: js_sub_def pow2_def round_ties_even_def)

lemma south_sqrt_rest:
  "Math_sqrt antipode_engine (Fin (8617842609995723 / 2 ^ 53)) = Fin (68831018284033 / 2 ^ 46)"
  by (simp add: antipode_engine_def Math_atan2_def)

lemma south_atan2:
  "Math_atan2 antipode_engine (Fin (7490808106342645 / 2 ^ 55)) (Fin (68831018284033 / 2 ^ 46)) = Fin (1886463400540917 / 2 ^ 53)"
  by (simp add: antipode_engine_def Math_atan2_def)

lemma earth_diameter:
  "js_mul (Fin (2)) (Fin (6371)) = Fin (12742)"
  using round_binary64_eqI [of "13" "(2) * (6371)" "7004988580560896"]
  by (simp add: js_mul_def pow2_def round_ties_even_def)

lemma south_distance:
  "js_mul (Fin (12742)) (Fin (1886463400540917 / 2 ^ 53)) = Fin (366780344386175 / 2 ^ 37)"
  using round_binary64_eqI [of "11" "(12742) * (1886463400540917 / 2 ^ 53)" "5868485510178800"]
  by (simp add: js_mul_def pow2_def round_ties_even_def)

lemma here_one_minus_a:
  "js_sub (Fin (1)) (Fin (0)) = Fin (1)"
  using round_binary64_eqI [of "0" "(1) + - (0)" "4503599627370496"]
  by (simp add: js_sub_def pow2_def round_ties_even_def)

lemma here_sqrt_rest:
  "Math_sqrt antipode_engine (Fin 1) = Fin 1"
  by (simp add: antipode_engine_def Math_atan2_def)

lemma haversine_a_south:
  "haversine_a antipode_engine (Fin 12) (Fin 0) (Fin (- 12)) (Fin 0) = Fin (6229706315924309 / 2 ^ 57)"
  unfolding haversine_a_def Let_def
  by (simp only: zero_operands antipode_lat_diff antipode_lat_diff_pi antipode_dLat
        antipode_dLat_half antipode_lat1_pi antipode_lat1_rad antipode_lat2_pi
        antipode_lat2_rad antipode_sin_lat antipode_cos_lat1 antipode_cos_lat2
        antipode_square_lat antipode_cos_cos south_a_sum)

lemma haversine_south:
  "haversine antipode_engine (Fin 12) (Fin 0) (Fin (- 12)) (Fin 0) = Fin (366780344386175 / 2 ^ 37)"
  unfolding haversine_def Let_def
  by (simp only: haversine_a_south south_sqrt_a south_one_minus_a south_sqrt_rest
        south_atan2 earth_diameter south_distance)

lemma haversine_a_here:
  "haversine_a antipode_engine (Fin 12) (Fin 0) (Fin 12) (Fin 0) = Fin 0"
  unfolding haversine_a_def Let_def
  by (simp only: zero_operands antipode_lat1_pi antipode_lat1_rad antipode_cos_lat1
        antipode_cos_cos)

lemma haversine_here:
  "haversine antipode_engine (Fin 12) (Fin 0) (Fin 12) (Fin 0) = Fin 0"
  unfolding haversine_def Let_def
  by (simp only: haversine_a_here zero_operands here_one_minus_a here_sqrt_rest
        earth_diameter)

text \<open>
  C3. For a user at (12, 0) and the centers at (-12, 0), (-12, 180) and (12, 0), in
  this order, the distances are 2668.678 km, \<^verbatim>\<open>NaN\<close> and 0 km, and the ranking returns
  the three in the order given: the center 2668.678 km away stays in front of the
  one at the user's position.
\<close>

theorem centersSorted_antipode_unsorted:
  "centersSorted antipode_engine (Some \<lparr>lat = 12, lng = 0\<rparr>)
       [\<lparr>lat = - 12, lng = 0, center_id = 1, center_name = ascii ''A'', address = []\<rparr>,
        \<lparr>lat = - 12, lng = 180, center_id = 2, center_name = ascii ''B'', address = []\<rparr>,
        \<lparr>lat = 12, lng = 0, center_id = 3, center_name = ascii ''C'', address = []\<rparr>]
     = [\<lparr>lat = - 12, lng = 0, center_id = 1, center_name = ascii ''A'', address = []\<rparr>,
        \<lparr>lat = - 12, lng = 180, center_id = 2, center_name = ascii ''B'', address = []\<rparr>,
        \<lparr>lat = 12, lng = 0, center_id = 3, center_name = ascii ''C'', address = []\<rparr>]
   \<and> map (distanceKm antipode_engine \<lparr>lat = 12, lng = 0\<rparr>)
       (centersSorted antipode_engine (Some \<lparr>lat = 12, lng = 0\<rparr>)
          [\<lparr>lat = - 12, lng = 0, center_id = 1, center_name = ascii ''A'', address = []\<rparr>,
           \<lparr>lat = - 12, lng = 180, center_id = 2, center_name = ascii ''B'', address = []\<rparr>,
           \<lparr>lat = 12, lng = 0, center_id = 3, center_name = ascii ''C'', address = []\<rparr>])
     = [Fin (366780344386175 / 2 ^ 37), NaN, Fin 0]
   \<and> (0 :: real) < 366780344386175 / 2 ^ 37"
proof -
  have d: "distanceKm antipode_engine \<lparr>lat = 12, lng = 0\<rparr>
      \<lparr>lat = - 12, lng = 180, center_id = 2, center_name = ascii ''B'', address = []\<rparr> = NaN"
    using haversine_antipode by (simp add: distanceKm_def)
  have "distanceKm antipode_engine \<lparr>lat = 12, lng = 0\<rparr>
      \<lparr>lat = - 12, lng = 0, center_id = 1, center_name = ascii ''A'', address = []\<rparr> = Fin (366780344386175 / 2 ^ 37)"
    using haversine_south by (simp add: distanceKm_def)
  moreover have "distanceKm antipode_engine \<lparr>lat = 12, lng = 0\<rparr>
      \<lparr>lat = 12, lng = 0, center_id = 3, center_name = ascii ''C'', address = []\<rparr> = Fin 0"
    using haversine_here by (simp add: distanceKm_def)
  ultimately show ?thesis
    using d centersSorted_NaN_between[OF d] by simp
qed


subsection \<open>Evaluating the string functions\<close>

lemmas num_defs = StringToNumber_def trim_def isWhiteSpace_def NonDecimalIntegerLiteral_def
  StrDecimalLiteral_def StrUnsignedDecimalLiteral_def ExponentPart_def isDigit_def
  digits_value_def digit_value_def to_double_range_def ascii_def Let_def

lemmas draft_defs = example_draft_def submit_runs_def nameOk_def phoneOk_def trim_def
  isWhiteSpace_def isDigit_def ascii_def

subsection \<open>Request submission\<close>

text \<open>
  The trimmed name has two or more characters exactly when the name has two or more
  non-whitespace characters: the trimmed string begins and ends with one.
\<close>

lemma filter_dropWhile_neg: "filter (\<lambda>x. \<not> P x) (dropWhile P xs) = filter (\<lambda>x. \<not> P x) xs"
  by (induction xs) auto

lemma filter_trim:
  "filter (\<lambda>c. \<not> isWhiteSpace c) (trim s) = filter (\<lambda>c. \<not> isWhiteSpace c) s"
proof -
  let ?P = "\<lambda>c. \<not> isWhiteSpace c"
  have "filter ?P (trim s) = rev (filter ?P (dropWhile isWhiteSpace (rev (dropWhile isWhiteSpace s))))"
    by (simp only: trim_def rev_filter)
  also have "\<dots> = rev (filter ?P (rev (dropWhile isWhiteSpace s)))"
    by (simp only: filter_dropWhile_neg)
  also have "\<dots> = filter ?P (dropWhile isWhiteSpace s)"
    by (simp only: rev_filter rev_rev_ident)
  also have "\<dots> = filter ?P s"
    by (simp only: filter_dropWhile_neg)
  finally show ?thesis .
qed

lemma last_dropWhile: "dropWhile P xs \<noteq> [] \<Longrightarrow> last (dropWhile P xs) = last xs"
  by (induction xs) (auto split: if_splits)

lemma trim_ends:
  assumes "trim s \<noteq> []"
  shows "\<not> isWhiteSpace (hd (trim s)) \<and> \<not> isWhiteSpace (last (trim s))"
proof -
  define d where "d = dropWhile isWhiteSpace s"
  define e where "e = dropWhile isWhiteSpace (rev d)"
  have t: "trim s = rev e" by (simp add: trim_def d_def e_def)
  with assms have e: "e \<noteq> []" by simp
  then have d: "d \<noteq> []" by (auto simp: e_def)
  have "last (trim s) = hd e" using e by (simp add: t last_rev)
  moreover have "\<not> isWhiteSpace (hd e)" using e unfolding e_def by (rule hd_dropWhile)
  moreover have "hd (trim s) = last e" using e by (simp add: t hd_rev)
  moreover have "last e = last (rev d)" using e unfolding e_def by (rule last_dropWhile)
  moreover have "last (rev d) = hd d" using d by (simp add: last_rev)
  moreover have "\<not> isWhiteSpace (hd d)" using d unfolding d_def by (rule hd_dropWhile)
  ultimately show ?thesis by simp
qed

lemma two_ends:
  assumes "2 \<le> length t" "P (hd t)" "P (last t)"
  shows "2 \<le> length (filter P t)"
proof -
  obtain x ys where t: "t = x # ys" using assms(1) by (cases t) auto
  have ys: "ys \<noteq> []" using assms(1) t by auto
  from assms(3) t ys have "P (last ys)" by simp
  moreover have "last ys \<in> set ys" using ys by simp
  ultimately have "filter P ys \<noteq> []" by (auto simp: filter_empty_conv)
  then have "1 \<le> length (filter P ys)" by (cases "filter P ys") auto
  with assms(2) t show ?thesis by simp
qed

lemma nameOk_iff:
  "2 \<le> length (trim s) \<longleftrightarrow> 2 \<le> length (filter (\<lambda>c. \<not> isWhiteSpace c) s)"
proof
  assume l: "2 \<le> length (trim s)"
  then have "trim s \<noteq> []" by auto
  then have ends: "\<not> isWhiteSpace (hd (trim s))" "\<not> isWhiteSpace (last (trim s))"
    using trim_ends by simp_all
  have "2 \<le> length (filter (\<lambda>c. \<not> isWhiteSpace c) (trim s))"
    by (rule two_ends[where P = "\<lambda>c. \<not> isWhiteSpace c", OF l ends])
  then show "2 \<le> length (filter (\<lambda>c. \<not> isWhiteSpace c) s)" by (simp only: filter_trim)
next
  assume "2 \<le> length (filter (\<lambda>c. \<not> isWhiteSpace c) s)"
  then have "2 \<le> length (filter (\<lambda>c. \<not> isWhiteSpace c) (trim s))" by (simp only: filter_trim)
  moreover have "length (filter (\<lambda>c. \<not> isWhiteSpace c) (trim s)) \<le> length (trim s)"
    by (rule length_filter_le)
  ultimately show "2 \<le> length (trim s)" by linarith
qed

lemma not_string_None: "\<not> not_string x \<Longrightarrow> x \<noteq> None"
  by (cases x) auto

lemma not_number_None: "\<not> not_number x \<Longrightarrow> x \<noteq> None"
  by (cases x) auto

lemma submit_runs_spec: "submit_runs s \<Longrightarrow> spec_preconditions s"
proof -
  assume r: "submit_runs s"
  then have "nameOk s" by (simp add: submit_runs_def)
  then have n: "2 \<le> length (filter (\<lambda>c. \<not> isWhiteSpace c) (name s))"
    by (simp only: nameOk_def nameOk_iff)
  from r have g: "\<not> not_string (selectedCenterId s)" "\<not> not_number (brandId s)"
      "\<not> not_number (modelId s)"
    by (simp_all add: submit_runs_def)
  have "selectedCenterId s \<noteq> None" "brandId s \<noteq> None" "modelId s \<noteq> None"
    by (rule not_string_None[OF g(1)], rule not_number_None[OF g(2)],
        rule not_number_None[OF g(3)])
  moreover from r have "agree s" "phoneOk s" by (simp_all add: submit_runs_def)
  ultimately show ?thesis using n by (simp add: spec_preconditions_def phoneOk_def)
qed

text \<open>
  C4. Unless a center is selected, the agreement flag is true, the name has at least 2
  non-whitespace characters, the phone has at least 7 digits and a brand and a model
  are selected, \<^verbatim>\<open>submit\<close> calls no backend and leaves the state as it is; so it does
  whenever the phone has fewer than 7 digits.
\<close>

theorem submit_noop_unless_preconditions:
  "(\<not> spec_preconditions s \<longrightarrow> submit createRequest s = (s, []))
   \<and> (length (filter isDigit (phone s)) < 7 \<longrightarrow> submit createRequest s = (s, []))"
proof (intro conjI impI)
  assume "\<not> spec_preconditions s"
  then have "\<not> submit_runs s" using submit_runs_spec by blast
  then show "submit createRequest s = (s, [])" by (simp add: submit_def)
next
  assume "length (filter isDigit (phone s)) < 7"
  then have "\<not> submit_runs s" by (simp add: submit_runs_def phoneOk_def)
  then show "submit createRequest s = (s, [])" by (simp add: submit_def)
qed

theorem submit_noop_unless_preconditions_witness:
  "\<not> spec_preconditions (example_draft\<lparr>phone := ascii ''12-34''\<rparr>)
   \<and> length (filter isDigit (phone (example_draft\<lparr>phone := ascii ''12-34''\<rparr>))) < 7
   \<and> submit (\<lambda>p. Inr JNull) (example_draft\<lparr>phone := ascii ''12-34''\<rparr>)
       = (example_draft\<lparr>phone := ascii ''12-34''\<rparr>, [])"
proof -
  have h1: "\<not> spec_preconditions (example_draft\<lparr>phone := ascii ''12-34''\<rparr>)"
    by (simp add: spec_preconditions_def draft_defs)
  have h2: "length (filter isDigit (phone (example_draft\<lparr>phone := ascii ''12-34''\<rparr>))) < 7"
    by (simp add: draft_defs)
  from h1 h2
    submit_noop_unless_preconditions
      [of "example_draft\<lparr>phone := ascii ''12-34''\<rparr>" "\<lambda>p. Inr JNull"]
  show ?thesis by blast
qed

text \<open>
  C5. When \<^verbatim>\<open>submit\<close> runs and the backend call succeeds, the name, the phone, the
  agreement flag and the description are reset (and the dialog closed) and nothing
  else changes, the center, model and brand selections in particular; when the call
  fails the state is unchanged.
\<close>

theorem submit_resets_on_success_only:
  "(submit_runs s \<and> createRequest (submit_payload s) = Inr created \<longrightarrow>
      fst (submit createRequest s) =
        s\<lparr>showDialog := False, name := [], phone := [], agree := False, desc := []\<rparr>
      \<and> selectedCenterId (fst (submit createRequest s)) = selectedCenterId s
      \<and> modelId (fst (submit createRequest s)) = modelId s
      \<and> brandId (fst (submit createRequest s)) = brandId s)
   \<and> (submit_runs s \<and> createRequest (submit_payload s) = Inl m \<longrightarrow>
      fst (submit createRequest s) = s)"
  by (cases created) (simp_all add: submit_def Let_def)

theorem submit_resets_on_success_only_witness:
  "submit_runs example_draft
   \<and> fst (submit (\<lambda>p. Inr (JObj [(ascii ''id'', JNum (Fin 42))])) example_draft)
       = example_draft\<lparr>showDialog := False, name := [], phone := [], agree := False, desc := []\<rparr>
   \<and> selectedCenterId (fst (submit (\<lambda>p. Inr (JObj [(ascii ''id'', JNum (Fin 42))]))
        example_draft)) = Some (ascii ''3'')
   \<and> modelId (fst (submit (\<lambda>p. Inr (JObj [(ascii ''id'', JNum (Fin 42))])) example_draft))
       = Some (Fin 7)
   \<and> fst (submit (\<lambda>p. Inl (ascii ''Bad Request'')) example_draft) = example_draft"
proof -
  have r: "submit_runs example_draft"
    by (simp add: draft_defs)
  have c: "selectedCenterId example_draft = Some (ascii ''3'')"
    "modelId example_draft = Some (Fin 7)"
    by (simp_all add: example_draft_def)
  from r c
    submit_resets_on_success_only
      [of example_draft "\<lambda>p. Inr (JObj [(ascii ''id'', JNum (Fin 42))])"
          "JObj [(ascii ''id'', JNum (Fin 42))]"]
    submit_resets_on_success_only
      [of example_draft "\<lambda>p. Inl (ascii ''Bad Request'')" _ "ascii ''Bad Request''"]
  show ?thesis by simp
qed

subsection \<open>Support message\<close>

text \<open>
  C10. When the request id does not coerce to a truthy number or the trimmed text is
  empty, \<^verbatim>\<open>send\<close> calls no backend and keeps the text. Otherwise it sends the number
  and the trimmed text once, clears the text if the call succeeds and keeps it if the
  call fails.
\<close>

theorem send_guard_and_clear:
  "(\<not> truthy_num (StringToNumber (rid s)) \<or> trim (message_text s) = [] \<longrightarrow>
      snd (send createSupportMessage s) = []
      \<and> message_text (fst (send createSupportMessage s)) = message_text s)
   \<and> (truthy_num (StringToNumber (rid s)) \<and> trim (message_text s) \<noteq> [] \<longrightarrow>
      snd (send createSupportMessage s) =
        [\<lparr>repair_request = StringToNumber (rid s), payload_text = trim (message_text s)\<rparr>]
      \<and> (\<forall>r. createSupportMessage
               \<lparr>repair_request = StringToNumber (rid s), payload_text = trim (message_text s)\<rparr>
             = Inr r \<longrightarrow> message_text (fst (send createSupportMessage s)) = [])
      \<and> (\<forall>m. createSupportMessage
               \<lparr>repair_request = StringToNumber (rid s), payload_text = trim (message_text s)\<rparr>
             = Inl m \<longrightarrow> message_text (fst (send createSupportMessage s)) = message_text s))"
  by (auto simp: send_def Let_def split: sum.splits)

theorem send_guard_and_clear_witness:
  "\<not> truthy_num (StringToNumber (ascii ''abc''))
   \<and> snd (send (\<lambda>p. Inr JNull)
        \<lparr>rid = ascii ''abc'', message_text = ascii ''hello'', toast = None, busy = False\<rparr>) = []
   \<and> message_text (fst (send (\<lambda>p. Inr JNull)
        \<lparr>rid = ascii ''abc'', message_text = ascii ''hello'', toast = None, busy = False\<rparr>))
       = ascii ''hello''
   \<and> truthy_num (StringToNumber (ascii ''15'')) \<and> trim (ascii '' hi '') \<noteq> []
   \<and> snd (send (\<lambda>p. Inr JNull)
        \<lparr>rid = ascii ''15'', message_text = ascii '' hi '', toast = None, busy = False\<rparr>)
       = [\<lparr>repair_request = Fin 15, payload_text = ascii ''hi''\<rparr>]
   \<and> message_text (fst (send (\<lambda>p. Inr JNull)
        \<lparr>rid = ascii ''15'', message_text = ascii '' hi '', toast = None, busy = False\<rparr>)) = []
   \<and> message_text (fst (send (\<lambda>p. Inl (ascii ''Not found''))
        \<lparr>rid = ascii ''15'', message_text = ascii '' hi '', toast = None, busy = False\<rparr>))
       = ascii '' hi ''"
proof -
  have a: "StringToNumber (ascii ''abc'') = NaN" by (simp add: num_defs)
  have n: "StringToNumber (ascii ''15'') = Fin 15" by (simp add: num_defs)
  have t: "trim (ascii '' hi '') = ascii ''hi''" by (simp add: num_defs)
  have t0: "ascii ''hi'' \<noteq> []" by (simp add: ascii_def)
  from a n t t0
    send_guard_and_clear
      [of "\<lparr>rid = ascii ''abc'', message_text = ascii ''hello'', toast = None, busy = False\<rparr>"
          "\<lambda>p. Inr JNull"]
    send_guard_and_clear
      [of "\<lparr>rid = ascii ''15'', message_text = ascii '' hi '', toast = None, busy = False\<rparr>"
          "\<lambda>p. Inr JNull"]
    send_guard_and_clear
      [of "\<lparr>rid = ascii ''15'', message_text = ascii '' hi '', toast = None, busy = False\<rparr>"
          "\<lambda>p. Inl (ascii ''Not found'')"]
  show ?thesis by simp
qed

subsection \<open>Model prices and list responses\<close>








text \<open>
  What the five handlers do with the two shapes. Brands, models, issues and centers
  give the same array for a bare array and for an object whose \<^verbatim>\<open>results\<close> holds it.
  Model prices are read from a bare array; an object gives the empty price map.
\<close>

lemma list_shapes:
  "getBrands_arr (JArr rows) = JArr rows
   \<and> getDeviceModels_arr (JArr rows) = JArr rows
   \<and> getIssues_arr (JArr rows) = JArr rows
   \<and> getCenters_arr (JArr rows) = JArr rows
   \<and> (map_of fs (ascii ''results'') = Some (JArr rows) \<longrightarrow>
        getBrands_arr (JObj fs) = JArr rows
        \<and> getDeviceModels_arr (JObj fs) = JArr rows
        \<and> getIssues_arr (JObj fs) = JArr rows
        \<and> getCenters_arr (JObj fs) = JArr rows)
   \<and> getModelPrices_then K (JArr rows) = fold (price_row K) rows Map.empty
   \<and> getModelPrices_then K (JObj fs) = Map.empty"
  by (simp add: getBrands_arr_def getDeviceModels_arr_def getIssues_arr_def getCenters_arr_def
        Array_isArray_def or_empty_array_def getModelPrices_then_def)

lemma list_shapes_example:
  "map_of [(ascii ''count'', JNum (Fin 1)),
           (ascii ''results'', JArr [JObj [(ascii ''id'', JNum (Fin 1))]])] (ascii ''results'')
     = Some (JArr [JObj [(ascii ''id'', JNum (Fin 1))]])
   \<and> getBrands_arr (JObj [(ascii ''count'', JNum (Fin 1)),
           (ascii ''results'', JArr [JObj [(ascii ''id'', JNum (Fin 1))]])])
     = getBrands_arr (JArr [JObj [(ascii ''id'', JNum (Fin 1))]])
   \<and> getCenters_arr (JObj [(ascii ''count'', JNum (Fin 1)),
           (ascii ''results'', JArr [JObj [(ascii ''id'', JNum (Fin 1))]])])
     = getCenters_arr (JArr [JObj [(ascii ''id'', JNum (Fin 1))]])"
proof -
  have m: "map_of [(ascii ''count'', JNum (Fin 1)),
           (ascii ''results'', JArr [JObj [(ascii ''id'', JNum (Fin 1))]])] (ascii ''results'')
     = Some (JArr [JObj [(ascii ''id'', JNum (Fin 1))]])"
    by (simp add: ascii_def)
  from m
    list_shapes
      [of "[JObj [(ascii ''id'', JNum (Fin 1))]]"
          "[(ascii ''count'', JNum (Fin 1)),
            (ascii ''results'', JArr [JObj [(ascii ''id'', JNum (Fin 1))]])]"]
  show ?thesis by simp
qed

text \<open>
  C8. For model prices the two shapes differ: the same row gives the entry of "screen"
  as a bare array and no entry inside an envelope, which the handler of the brands
  (as those of the models, issues and centers) turns into the array.
\<close>

theorem model_prices_envelope_rejected:
  "getModelPrices_then (\<lambda>v. [])
     (JArr [screen_row (JNum (Fin 1000)) (JNum (Fin 2000)) (JNum (Fin 2))]) (ascii ''screen'')
     = Some \<lparr>min_price = 1000, max_price = 2000, hours = 2\<rparr>
   \<and> getModelPrices_then (\<lambda>v. [])
     (JObj [(ascii ''results'',
             JArr [screen_row (JNum (Fin 1000)) (JNum (Fin 2000)) (JNum (Fin 2))])])
     (ascii ''screen'') = None
   \<and> getBrands_arr
     (JObj [(ascii ''results'',
             JArr [screen_row (JNum (Fin 1000)) (JNum (Fin 2000)) (JNum (Fin 2))])])
     = JArr [screen_row (JNum (Fin 1000)) (JNum (Fin 2000)) (JNum (Fin 2))]"
  by (simp add: getModelPrices_then_def price_row_def screen_row_def ascii_def Let_def
        getBrands_arr_def Array_isArray_def or_empty_array_def)

subsection \<open>HTTP wrapper\<close>

lemma get_prop_truthy: "get_prop data k = Some v \<Longrightarrow> truthy data"
  by (cases data) simp_all

text \<open>
  C9, as amended. The wrapper rejects exactly when the response is not ok. The message
  is the first truthy one of the body's \<^verbatim>\<open>detail\<close>, \<^verbatim>\<open>error\<close> and \<^verbatim>\<open>message\<close>
  (serialised when it is not a string), else the status text if not empty, else
  "Request failed". An ok response gives the parsed body, the raw text when it does
  not parse, \<^verbatim>\<open>null\<close> when it is empty.
\<close>

theorem http_outcome:
  "(ok res \<longrightarrow> http P S res = Inr (http_data P res))
   \<and> (body res = [] \<longrightarrow> http_data P res = JNull)
   \<and> (body res \<noteq> [] \<and> P (body res) = None \<longrightarrow> http_data P res = JStr (body res))
   \<and> (body res \<noteq> [] \<and> P (body res) = Some v \<longrightarrow> http_data P res = v)
   \<and> (\<not> ok res \<longrightarrow> (\<exists>m. http P S res = Inl m))
   \<and> (\<not> ok res \<and> get_prop (http_data P res) ''detail'' = Some d \<and> truthy d \<longrightarrow>
        http P S res = Inl (message_string S d))
   \<and> (\<not> ok res \<and> \<not> truthy_opt (get_prop (http_data P res) ''detail'')
       \<and> get_prop (http_data P res) ''error'' = Some e \<and> truthy e \<longrightarrow>
        http P S res = Inl (message_string S e))
   \<and> (\<not> ok res \<and> \<not> truthy_opt (get_prop (http_data P res) ''detail'')
       \<and> \<not> truthy_opt (get_prop (http_data P res) ''error'')
       \<and> get_prop (http_data P res) ''message'' = Some g \<and> truthy g \<longrightarrow>
        http P S res = Inl (message_string S g))
   \<and> (\<not> ok res \<and> \<not> truthy_opt (get_prop (http_data P res) ''detail'')
       \<and> \<not> truthy_opt (get_prop (http_data P res) ''error'')
       \<and> \<not> truthy_opt (get_prop (http_data P res) ''message'') \<longrightarrow>
        http P S res =
          Inl (if statusText res \<noteq> [] then statusText res else ascii ''Request failed''))"
proof (intro conjI impI)
  show "ok res \<Longrightarrow> http P S res = Inr (http_data P res)"
    by (simp add: http_def Let_def)
  show "body res = [] \<Longrightarrow> http_data P res = JNull"
    by (simp add: http_data_def)
  show "body res \<noteq> [] \<and> P (body res) = None \<Longrightarrow> http_data P res = JStr (body res)"
    by (simp add: http_data_def)
  show "body res \<noteq> [] \<and> P (body res) = Some v \<Longrightarrow> http_data P res = v"
    by (simp add: http_data_def)
  show "\<not> ok res \<Longrightarrow> \<exists>m. http P S res = Inl m"
    by (simp add: http_def Let_def)
  show "\<not> ok res \<and> get_prop (http_data P res) ''detail'' = Some d \<and> truthy d \<Longrightarrow>
        http P S res = Inl (message_string S d)"
    using get_prop_truthy[of "http_data P res" "''detail''" d]
    by (simp add: http_def Let_def)
  show "\<not> ok res \<and> \<not> truthy_opt (get_prop (http_data P res) ''detail'')
       \<and> get_prop (http_data P res) ''error'' = Some e \<and> truthy e \<Longrightarrow>
        http P S res = Inl (message_string S e)"
    using get_prop_truthy[of "http_data P res" "''error''" e]
    by (simp add: http_def Let_def)
  show "\<not> ok res \<and> \<not> truthy_opt (get_prop (http_data P res) ''detail'')
       \<and> \<not> truthy_opt (get_prop (http_data P res) ''error'')
       \<and> get_prop (http_data P res) ''message'' = Some g \<and> truthy g \<Longrightarrow>
        http P S res = Inl (message_string S g)"
    using get_prop_truthy[of "http_data P res" "''message''" g]
    by (simp add: http_def Let_def)
  show "\<not> ok res \<and> \<not> truthy_opt (get_prop (http_data P res) ''detail'')
       \<and> \<not> truthy_opt (get_prop (http_data P res) ''error'')
       \<and> \<not> truthy_opt (get_prop (http_data P res) ''message'') \<Longrightarrow>
        http P S res =
          Inl (if statusText res \<noteq> [] then statusText res else ascii ''Request failed'')"
    by (simp add: http_def Let_def message_string_def)
qed

theorem http_outcome_witness:
  "http parse_empty_detail (\<lambda>v. [])
      \<lparr>ok = True, statusText = ascii ''OK'', body = empty_detail_body\<rparr> = Inr empty_detail_json
   \<and> http parse_empty_detail (\<lambda>v. [])
      \<lparr>ok = True, statusText = ascii ''OK'', body = ascii ''<html>''\<rparr> = Inr (JStr (ascii ''<html>''))
   \<and> http parse_empty_detail (\<lambda>v. [])
      \<lparr>ok = True, statusText = ascii ''No Content'', body = []\<rparr> = Inr JNull
   \<and> http parse_empty_detail (\<lambda>v. [])
      \<lparr>ok = False, statusText = ascii ''Bad Request'', body = empty_detail_body\<rparr>
      = Inl (ascii ''E'')
   \<and> http parse_empty_detail (\<lambda>v. [])
      \<lparr>ok = False, statusText = ascii ''Bad Gateway'', body = ascii ''<html>''\<rparr>
      = Inl (ascii ''Bad Gateway'')
   \<and> http parse_empty_detail (\<lambda>v. [])
      \<lparr>ok = False, statusText = [], body = []\<rparr> = Inl (ascii ''Request failed'')"
proof -
  have p1: "parse_empty_detail empty_detail_body = Some empty_detail_json"
    by (simp add: parse_empty_detail_def)
  have p2: "parse_empty_detail (ascii ''<html>'') = None"
    by (simp add: parse_empty_detail_def empty_detail_body_def quoted_def ascii_def)
  have b1: "empty_detail_body \<noteq> []"
    by (simp add: empty_detail_body_def quoted_def ascii_def)
  have b2: "ascii ''<html>'' \<noteq> []" "ascii ''Bad Gateway'' \<noteq> []"
    by (simp_all add: ascii_def)
  have g: "get_prop empty_detail_json ''detail'' = Some (JStr [])"
    "get_prop empty_detail_json ''error'' = Some (JStr (ascii ''E''))"
    by (simp_all add: empty_detail_json_def ascii_def)
  have e: "ascii ''E'' \<noteq> []" by (simp add: ascii_def)
  note t = http_outcome [where P = parse_empty_detail and S = "\<lambda>v. []"]
  have d1: "http_data parse_empty_detail
      \<lparr>ok = True, statusText = ascii ''OK'', body = empty_detail_body\<rparr> = empty_detail_json"
    using t [of "\<lparr>ok = True, statusText = ascii ''OK'', body = empty_detail_body\<rparr>"
               empty_detail_json] p1 b1
    by simp
  have d2: "http_data parse_empty_detail
      \<lparr>ok = False, statusText = ascii ''Bad Request'', body = empty_detail_body\<rparr>
      = empty_detail_json"
    using t [of "\<lparr>ok = False, statusText = ascii ''Bad Request'', body = empty_detail_body\<rparr>"
               empty_detail_json] p1 b1
    by simp
  have d3: "http_data parse_empty_detail
      \<lparr>ok = True, statusText = ascii ''OK'', body = ascii ''<html>''\<rparr> = JStr (ascii ''<html>'')"
    using t [of "\<lparr>ok = True, statusText = ascii ''OK'', body = ascii ''<html>''\<rparr>"] p2 b2
    by simp
  have d4: "http_data parse_empty_detail
      \<lparr>ok = False, statusText = ascii ''Bad Gateway'', body = ascii ''<html>''\<rparr>
      = JStr (ascii ''<html>'')"
    using t [of "\<lparr>ok = False, statusText = ascii ''Bad Gateway'', body = ascii ''<html>''\<rparr>"]
      p2 b2
    by simp
  have d5: "http_data parse_empty_detail \<lparr>ok = True, statusText = ascii ''No Content'', body = []\<rparr>
      = JNull"
    "http_data parse_empty_detail \<lparr>ok = False, statusText = [], body = []\<rparr> = JNull"
    using t [of "\<lparr>ok = True, statusText = ascii ''No Content'', body = []\<rparr>"]
      t [of "\<lparr>ok = False, statusText = [], body = []\<rparr>"]
    by simp_all
  have r1: "http parse_empty_detail (\<lambda>v. [])
      \<lparr>ok = True, statusText = ascii ''OK'', body = empty_detail_body\<rparr> = Inr empty_detail_json"
    using t [of "\<lparr>ok = True, statusText = ascii ''OK'', body = empty_detail_body\<rparr>"] d1
    by simp
  have r2: "http parse_empty_detail (\<lambda>v. [])
      \<lparr>ok = True, statusText = ascii ''OK'', body = ascii ''<html>''\<rparr> = Inr (JStr (ascii ''<html>''))"
    using t [of "\<lparr>ok = True, statusText = ascii ''OK'', body = ascii ''<html>''\<rparr>"] d3
    by simp
  have r3: "http parse_empty_detail (\<lambda>v. [])
      \<lparr>ok = True, statusText = ascii ''No Content'', body = []\<rparr> = Inr JNull"
    using t [of "\<lparr>ok = True, statusText = ascii ''No Content'', body = []\<rparr>"] d5
    by simp
  have r4: "http parse_empty_detail (\<lambda>v. [])
      \<lparr>ok = False, statusText = ascii ''Bad Request'', body = empty_detail_body\<rparr>
      = Inl (ascii ''E'')"
    using t [of "\<lparr>ok = False, statusText = ascii ''Bad Request'', body = empty_detail_body\<rparr>"
               _ _ "JStr (ascii ''E'')"] d2 g e
    by (simp add: message_string_def)
  have r5: "http parse_empty_detail (\<lambda>v. [])
      \<lparr>ok = False, statusText = ascii ''Bad Gateway'', body = ascii ''<html>''\<rparr>
      = Inl (ascii ''Bad Gateway'')"
    using t [of "\<lparr>ok = False, statusText = ascii ''Bad Gateway'', body = ascii ''<html>''\<rparr>"]
      d4 b2
    by simp
  have r6: "http parse_empty_detail (\<lambda>v. [])
      \<lparr>ok = False, statusText = [], body = []\<rparr> = Inl (ascii ''Request failed'')"
    using t [of "\<lparr>ok = False, statusText = [], body = []\<rparr>"] d5
    by simp
  from r1 r2 r3 r4 r5 r6 show ?thesis by blast
qed

text \<open>
  C9 as stated fails: in \<^verbatim>\<open>{"detail":"","error":"E"}\<close> the \<^verbatim>\<open>detail\<close> field is
  present, the claim's message is that field, the empty string, and the wrapper's
  message is "E".
\<close>

theorem http_empty_detail_skipped:
  "get_prop empty_detail_json ''detail'' = Some (JStr [])
   \<and> spec_error_message empty_detail_json (ascii ''Bad Request'') = JStr []
   \<and> http parse_empty_detail (\<lambda>v. [])
        \<lparr>ok = False, statusText = ascii ''Bad Request'', body = empty_detail_body\<rparr>
      = Inl (ascii ''E'')"
  by (simp add: http_def http_data_def parse_empty_detail_def empty_detail_json_def
        empty_detail_body_def quoted_def spec_error_message_def message_string_def ascii_def)

end
